theory Spec2Isabelle
  imports Main "HOL-Library.Sublist"
begin

section \<open>Configuration model\<close>

text \<open>
  The Go type \<^verbatim>\<open>CalculatorType\<close> is a string type with two named constants; a
  configuration can carry any string in its \<^verbatim>\<open>Type\<close> field. Go strings are byte
  sequences, modelled as \<^typ>\<open>string\<close>.
\<close>

type_synonym CalculatorType = string

definition BasicCalculator :: CalculatorType where
  "BasicCalculator = ''basic''"

definition ScientificCalculator :: CalculatorType where
  "ScientificCalculator = ''scientific''"

record Libraries =
  UseNumpy :: bool
  UsePandas :: bool
  UseScipy :: bool
  UseMath :: bool
  UseSympy :: bool
  UsePlotly :: bool

record Features =
  BasicArithmetic :: bool
  History :: bool
  Memory :: bool
  Trigonometric :: bool
  Logarithmic :: bool
  Exponential :: bool
  Statistical :: bool
  LinearAlgebra :: bool
  Calculus :: bool
  Plotting :: bool
  UnitConversion :: bool
  ComplexNumbers :: bool
  EquationSolver :: bool
  MatrixOperations :: bool
  DataAnalysis :: bool
  Graphing :: bool
  Programming :: bool

text \<open>\<^verbatim>\<open>Precision\<close> is a Go \<^verbatim>\<open>int\<close>. The program only compares and prints it, so no
  arithmetic can wrap and it is modelled as \<^typ>\<open>int\<close>.\<close>

record UIConfig =
  Style :: string
  Theme :: string
  ShowHelp :: bool
  ShowBanner :: bool
  Precision :: int
  AngleUnit :: string

record CalculatorConfig =
  Type :: CalculatorType
  OutputFile :: string
  ProjectName :: string
  Author :: string
  Description :: string
  Interactive :: bool
  Libraries :: Libraries
  Features :: Features
  UI :: UIConfig

record TemplateData =
  Config :: CalculatorConfig
  Imports :: "string list"
  Functions :: "string list"
  MainContent :: string
  Version :: string
  Timestamp :: string

record ValidationError =
  Field :: string
  Message :: string

text \<open>
  Go's \<^verbatim>\<open>error\<close> values that the program builds: a \<^verbatim>\<open>ValidationError\<close>,
  \<^verbatim>\<open>fmt.Errorf\<close> with a format that wraps another error (\<^verbatim>\<open>%w\<close>) or prints a
  string (\<^verbatim>\<open>%s\<close>), kept as the format and its argument, and whatever the operating
  system reports for a failed call.
\<close>

datatype error =
    ValidationErr ValidationError
  | Wrapf string error
  | Errorf string string
  | OSError string

definition GetDefaultConfig :: CalculatorConfig where
  "GetDefaultConfig =
    \<lparr> Type = BasicCalculator,
      OutputFile = ''calculator.py'',
      ProjectName = ''Python Calculator'',
      Author = ''Calculator Generator'',
      Description = ''A customizable calculator application'',
      Interactive = True,
      Libraries = \<lparr> UseNumpy = False, UsePandas = False, UseScipy = False,
        UseMath = True, UseSympy = False, UsePlotly = False \<rparr>,
      Features = \<lparr> BasicArithmetic = True, History = False, Memory = False,
        Trigonometric = False, Logarithmic = False, Exponential = False,
        Statistical = False, LinearAlgebra = False, Calculus = False,
        Plotting = False, UnitConversion = False, ComplexNumbers = False,
        EquationSolver = False, MatrixOperations = False, DataAnalysis = False,
        Graphing = False, Programming = False \<rparr>,
      UI = \<lparr> Style = ''cli'', Theme = ''light'', ShowHelp = True, ShowBanner = True,
        Precision = 10, AngleUnit = ''degrees'' \<rparr> \<rparr>"

definition GetScientificConfig :: CalculatorConfig where
  "GetScientificConfig =
    (let config = GetDefaultConfig;
         config = config\<lparr>Type := ScientificCalculator\<rparr>;
         config = config\<lparr>Description :=
           ''A scientific calculator with advanced mathematical functions''\<rparr>;
         config = config\<lparr>Libraries := (Libraries config)\<lparr>UseNumpy := True\<rparr>\<rparr>;
         config = config\<lparr>Libraries := (Libraries config)\<lparr>UseScipy := True\<rparr>\<rparr>;
         config = config\<lparr>Libraries := (Libraries config)\<lparr>UseSympy := True\<rparr>\<rparr>;
         config = config\<lparr>Features := (Features config)\<lparr>Trigonometric := True\<rparr>\<rparr>;
         config = config\<lparr>Features := (Features config)\<lparr>Logarithmic := True\<rparr>\<rparr>;
         config = config\<lparr>Features := (Features config)\<lparr>Exponential := True\<rparr>\<rparr>;
         config = config\<lparr>Features := (Features config)\<lparr>Statistical := True\<rparr>\<rparr>;
         config = config\<lparr>Features := (Features config)\<lparr>LinearAlgebra := True\<rparr>\<rparr>;
         config = config\<lparr>Features := (Features config)\<lparr>ComplexNumbers := True\<rparr>\<rparr>;
         config = config\<lparr>Features := (Features config)\<lparr>History := True\<rparr>\<rparr>;
         config = config\<lparr>Features := (Features config)\<lparr>Memory := True\<rparr>\<rparr>
     in config)"

section \<open>Validation\<close>

definition validateConfig :: "CalculatorConfig \<Rightarrow> error option" where
  "validateConfig g =
    (if OutputFile g = '''' then
       Some (ValidationErr \<lparr>Field = ''output_file'', Message = ''output file cannot be empty''\<rparr>)
     else if ProjectName g = '''' then
       Some (ValidationErr \<lparr>Field = ''project_name'', Message = ''project name cannot be empty''\<rparr>)
     else if Precision (UI g) < 1 \<or> Precision (UI g) > 20 then
       Some (ValidationErr \<lparr>Field = ''precision'', Message = ''precision must be between 1 and 20''\<rparr>)
     else None)"

section \<open>The host: clock, paths and file system\<close>

text \<open>
  \<^verbatim>\<open>Generate\<close> reads the clock once and calls \<^verbatim>\<open>os.MkdirAll\<close> and
  \<^verbatim>\<open>os.WriteFile\<close>. The calls made are recorded, in order, in a trace that is passed
  through the functions; the host says what the clock reads (already formatted by
  \<^verbatim>\<open>time.Now().Format("2006-01-02 15:04:05")\<close>), what the path functions of the
  standard library return, and which calls fail, given the calls made before.
\<close>

datatype io_op =
    MkdirAll string nat
  | WriteFile string string nat

record host =
  Now :: string
  filepath_Dir :: "string \<Rightarrow> string"
  filepath_Join :: "string \<Rightarrow> string \<Rightarrow> string"
  io_error :: "io_op list \<Rightarrow> io_op \<Rightarrow> error option"

definition perform :: "host \<Rightarrow> io_op \<Rightarrow> io_op list \<Rightarrow> io_op list \<times> error option" where
  "perform h op tr = (tr @ [op], io_error h tr op)"

text \<open>\<^verbatim>\<open>fmt.Sprintf("%d", n)\<close>: the decimal digits, with a minus sign when negative.\<close>

fun nat_dec :: "nat \<Rightarrow> string" where
  "nat_dec n = (if n < 10 then [char_of (48 + n)] else nat_dec (n div 10) @ [char_of (48 + n mod 10)])"

declare nat_dec.simps [simp del]

definition Sprintf_d :: "int \<Rightarrow> string" where
  "Sprintf_d i = (if i < 0 then ''-'' @ nat_dec (nat (- i)) else nat_dec (nat i))"

text \<open>\<^verbatim>\<open>strings.Join(xs, sep)\<close>.\<close>

fun strings_Join :: "string list \<Rightarrow> string \<Rightarrow> string" where
  "strings_Join [] sep = ''''"
| "strings_Join [x] sep = x"
| "strings_Join (x # y # ys) sep = x @ sep @ strings_Join (y # ys) sep"

section \<open>The command-line generator\<close>

definition generateImports :: "CalculatorConfig \<Rightarrow> string list" where
  "generateImports g =
    [''import sys''] @
    [''import os''] @
    (if UseMath (Libraries g) then [''import math''] else []) @
    (if History (Features g) then [''import json'', ''from datetime import datetime''] else []) @
    (if UseNumpy (Libraries g) then [''import numpy as np''] else []) @
    (if UsePandas (Libraries g) then [''import pandas as pd''] else []) @
    (if UseScipy (Libraries g) then
       [''import scipy as sp'', ''from scipy import stats, optimize, integrate''] else []) @
    (if UseSympy (Libraries g) then
       [''import sympy as sym'',
        ''from sympy import symbols, solve, diff, integrate as sym_integrate''] else []) @
    (if UsePlotly (Libraries g) \<or> Plotting (Features g) then
       [''import plotly.graph_objects as go'', ''import plotly.express as px''] else []) @
    (if ComplexNumbers (Features g) then [''import cmath''] else [])"

definition generateBasicArithmetic :: "string list" where
  \<open>generateBasicArithmetic = [
      ''def add(a, b):\<newline>'' @
      ''    """Addition operation"""\<newline>'' @
      ''    return a + b'',
      ''def subtract(a, b):\<newline>'' @
      ''    """Subtraction operation"""\<newline>'' @
      ''    return a - b'',
      ''def multiply(a, b):\<newline>'' @
      ''    """Multiplication operation"""\<newline>'' @
      ''    return a * b'',
      ''def divide(a, b):\<newline>'' @
      ''    """Division operation"""\<newline>'' @
      ''    if b == 0:\<newline>'' @
      ''        raise ValueError("Cannot divide by zero")\<newline>'' @
      ''    return a / b'',
      ''def power(a, b):\<newline>'' @
      ''    """Power operation"""\<newline>'' @
      ''    return a ** b'',
      ''def modulo(a, b):\<newline>'' @
      ''    """Modulo operation"""\<newline>'' @
      ''    if b == 0:\<newline>'' @
      ''        raise ValueError("Cannot calculate modulo with zero")\<newline>'' @
      ''    return a % b'']\<close>

definition generateMemoryFunctions :: "string list" where
  \<open>generateMemoryFunctions = [
      ''class Memory:\<newline>'' @
      ''    """Calculator memory functionality"""\<newline>'' @
      ''    def __init__(self):\<newline>'' @
      ''        self.value = 0\<newline>'' @
      ''\<newline>'' @
      ''    def store(self, value):\<newline>'' @
      ''        """Store value in memory"""\<newline>'' @
      ''        self.value = value\<newline>'' @
      ''        return f"Stored {value} in memory"\<newline>'' @
      ''\<newline>'' @
      ''    def recall(self):\<newline>'' @
      ''        """Recall value from memory"""\<newline>'' @
      ''        return self.value\<newline>'' @
      ''\<newline>'' @
      ''    def clear(self):\<newline>'' @
      ''        """Clear memory"""\<newline>'' @
      ''        self.value = 0\<newline>'' @
      ''        return "Memory cleared"\<newline>'' @
      ''\<newline>'' @
      ''    def add_to_memory(self, value):\<newline>'' @
      ''        """Add value to memory"""\<newline>'' @
      ''        self.value += value\<newline>'' @
      ''        return f"Added {value} to memory, new value: {self.value}"'']\<close>

definition generateHistoryFunctions :: "string list" where
  \<open>generateHistoryFunctions = [
      ''class History:\<newline>'' @
      ''    """Calculator history functionality"""\<newline>'' @
      ''    def __init__(self, max_entries=100):\<newline>'' @
      ''        self.entries = []\<newline>'' @
      ''        self.max_entries = max_entries\<newline>'' @
      ''\<newline>'' @
      ''    def add_entry(self, operation, result):\<newline>'' @
      ''        """Add calculation to history"""\<newline>'' @
      ''        entry = {\<newline>'' @
      ''            "timestamp": datetime.now().isoformat(),\<newline>'' @
      ''            "operation": operation,\<newline>'' @
      ''            "result": result\<newline>'' @
      ''        }\<newline>'' @
      ''        self.entries.append(entry)\<newline>'' @
      ''\<newline>'' @
      ''        # Keep only max_entries\<newline>'' @
      ''        if len(self.entries) > self.max_entries:\<newline>'' @
      ''            self.entries = self.entries[-self.max_entries:]\<newline>'' @
      ''\<newline>'' @
      ''    def get_history(self, count=10):\<newline>'' @
      ''        """Get recent history entries"""\<newline>'' @
      ''        return self.entries[-count:]\<newline>'' @
      ''\<newline>'' @
      ''    def clear_history(self):\<newline>'' @
      ''        """Clear calculation history"""\<newline>'' @
      ''        self.entries = []\<newline>'' @
      ''        return "History cleared"\<newline>'' @
      ''\<newline>'' @
      ''    def save_to_file(self, filename="calculator_history.json"):\<newline>'' @
      ''        """Save history to file"""\<newline>'' @
      ''        with open(filename, 'w') as f:\<newline>'' @
      ''            json.dump(self.entries, f, indent=2)\<newline>'' @
      ''        return f"History saved to {filename}"'']\<close>

definition generateTrigonometricFunctions :: "string list" where
  \<open>generateTrigonometricFunctions = [
      ''def sin(x, angle_unit="degrees"):\<newline>'' @
      ''    """Sine function"""\<newline>'' @
      ''    if angle_unit == "degrees":\<newline>'' @
      ''        x = math.radians(x)\<newline>'' @
      ''    return math.sin(x)'',
      ''def cos(x, angle_unit="degrees"):\<newline>'' @
      ''    """Cosine function"""\<newline>'' @
      ''    if angle_unit == "degrees":\<newline>'' @
      ''        x = math.radians(x)\<newline>'' @
      ''    return math.cos(x)'',
      ''def tan(x, angle_unit="degrees"):\<newline>'' @
      ''    """Tangent function"""\<newline>'' @
      ''    if angle_unit == "degrees":\<newline>'' @
      ''        x = math.radians(x)\<newline>'' @
      ''    return math.tan(x)'',
      ''def asin(x, angle_unit="degrees"):\<newline>'' @
      ''    """Arcsine function"""\<newline>'' @
      ''    result = math.asin(x)\<newline>'' @
      ''    if angle_unit == "degrees":\<newline>'' @
      ''        result = math.degrees(result)\<newline>'' @
      ''    return result'',
      ''def acos(x, angle_unit="degrees"):\<newline>'' @
      ''    """Arccosine function"""\<newline>'' @
      ''    result = math.acos(x)\<newline>'' @
      ''    if angle_unit == "degrees":\<newline>'' @
      ''        result = math.degrees(result)\<newline>'' @
      ''    return result'',
      ''def atan(x, angle_unit="degrees"):\<newline>'' @
      ''    """Arctangent function"""\<newline>'' @
      ''    result = math.atan(x)\<newline>'' @
      ''    if angle_unit == "degrees":\<newline>'' @
      ''        result = math.degrees(result)\<newline>'' @
      ''    return result'']\<close>

definition generateLogarithmicFunctions :: "string list" where
  \<open>generateLogarithmicFunctions = [
      ''def log(x, base=10):\<newline>'' @
      ''    """Logarithm function"""\<newline>'' @
      ''    if x <= 0:\<newline>'' @
      ''        raise ValueError("Logarithm input must be positive")\<newline>'' @
      ''    if base == math.e:\<newline>'' @
      ''        return math.log(x)\<newline>'' @
      ''    return math.log(x, base)'',
      ''def ln(x):\<newline>'' @
      ''    """Natural logarithm"""\<newline>'' @
      ''    if x <= 0:\<newline>'' @
      ''        raise ValueError("Natural logarithm input must be positive")\<newline>'' @
      ''    return math.log(x)'',
      ''def log10(x):\<newline>'' @
      ''    """Base-10 logarithm"""\<newline>'' @
      ''    if x <= 0:\<newline>'' @
      ''        raise ValueError("Logarithm input must be positive")\<newline>'' @
      ''    return math.log10(x)'',
      ''def log2(x):\<newline>'' @
      ''    """Base-2 logarithm"""\<newline>'' @
      ''    if x <= 0:\<newline>'' @
      ''        raise ValueError("Logarithm input must be positive")\<newline>'' @
      ''    return math.log2(x)'']\<close>

definition generateStatisticalFunctions :: "string list" where
  \<open>generateStatisticalFunctions = [
      ''def mean(data):\<newline>'' @
      ''    """Calculate mean of data"""\<newline>'' @
      ''    return np.mean(data)'',
      ''def median(data):\<newline>'' @
      ''    """Calculate median of data"""\<newline>'' @
      ''    return np.median(data)'',
      ''def std(data):\<newline>'' @
      ''    """Calculate standard deviation"""\<newline>'' @
      ''    return np.std(data)'',
      ''def variance(data):\<newline>'' @
      ''    """Calculate variance"""\<newline>'' @
      ''    return np.var(data)'',
      ''def correlation(x, y):\<newline>'' @
      ''    """Calculate correlation coefficient"""\<newline>'' @
      ''    return np.corrcoef(x, y)[0, 1]'']\<close>

definition generateLinearAlgebraFunctions :: "string list" where
  \<open>generateLinearAlgebraFunctions = [
      ''def matrix_multiply(a, b):\<newline>'' @
      ''    """Matrix multiplication"""\<newline>'' @
      ''    return np.dot(a, b)'',
      ''def matrix_inverse(matrix):\<newline>'' @
      ''    """Matrix inverse"""\<newline>'' @
      ''    return np.linalg.inv(matrix)'',
      ''def matrix_determinant(matrix):\<newline>'' @
      ''    """Matrix determinant"""\<newline>'' @
      ''    return np.linalg.det(matrix)'',
      ''def eigenvalues(matrix):\<newline>'' @
      ''    """Calculate eigenvalues"""\<newline>'' @
      ''    return np.linalg.eigvals(matrix)'']\<close>

definition generatePlottingFunctions :: "string list" where
  \<open>generatePlottingFunctions = [
      ''def plot_function(func_str, x_range=(-10, 10), num_points=100):\<newline>'' @
      ''    """Plot a mathematical function"""\<newline>'' @
      ''    x = np.linspace(x_range[0], x_range[1], num_points)\<newline>'' @
      ''    y = eval(func_str.replace('x', 'x'))\<newline>'' @
      ''\<newline>'' @
      ''    fig = go.Figure()\<newline>'' @
      ''    fig.add_trace(go.Scatter(x=x, y=y, mode='lines', name=func_str))\<newline>'' @
      ''    fig.update_layout(title=f"Plot of {func_str}", xaxis_title="x", yaxis_title="y")\<newline>'' @
      ''    fig.show()'',
      ''def plot_data(x_data, y_data, title="Data Plot"):\<newline>'' @
      ''    """Plot data points"""\<newline>'' @
      ''    fig = go.Figure()\<newline>'' @
      ''    fig.add_trace(go.Scatter(x=x_data, y=y_data, mode='markers+lines'))\<newline>'' @
      ''    fig.update_layout(title=title, xaxis_title="x", yaxis_title="y")\<newline>'' @
      ''    fig.show()'']\<close>

definition generateEquationSolverFunctions :: "string list" where
  \<open>generateEquationSolverFunctions = [
      ''def solve_equation(equation_str, variable='x'):\<newline>'' @
      ''    """Solve algebraic equation"""\<newline>'' @
      ''    x = symbols(variable)\<newline>'' @
      ''    equation = sym.sympify(equation_str)\<newline>'' @
      ''    solutions = solve(equation, x)\<newline>'' @
      ''    return solutions'',
      ''def differentiate(expr_str, variable='x'):\<newline>'' @
      ''    """Calculate derivative"""\<newline>'' @
      ''    x = symbols(variable)\<newline>'' @
      ''    expr = sym.sympify(expr_str)\<newline>'' @
      ''    return diff(expr, x)'',
      ''def integrate_symbolic(expr_str, variable='x'):\<newline>'' @
      ''    """Calculate symbolic integral"""\<newline>'' @
      ''    x = symbols(variable)\<newline>'' @
      ''    expr = sym.sympify(expr_str)\<newline>'' @
      ''    return sym_integrate(expr, x)'']\<close>

definition generateFunctions :: "CalculatorConfig \<Rightarrow> string list" where
  "generateFunctions g =
    (if BasicArithmetic (Features g) then generateBasicArithmetic else []) @
    (if Memory (Features g) then generateMemoryFunctions else []) @
    (if History (Features g) then generateHistoryFunctions else []) @
    (if Trigonometric (Features g) then generateTrigonometricFunctions else []) @
    (if Logarithmic (Features g) then generateLogarithmicFunctions else []) @
    (if Statistical (Features g) \<and> UseNumpy (Libraries g) then generateStatisticalFunctions else []) @
    (if LinearAlgebra (Features g) \<and> UseNumpy (Libraries g) then generateLinearAlgebraFunctions else []) @
    (if Plotting (Features g) \<and> UsePlotly (Libraries g) then generatePlottingFunctions else []) @
    (if EquationSolver (Features g) \<and> UseSympy (Libraries g) then generateEquationSolverFunctions else [])"

text \<open>The pieces of text that \<^verbatim>\<open>generateMainContent\<close> writes to its string builder,
  named after what they hold, in the order of the source.\<close>

definition main_class_head :: string where
  \<open>main_class_head =
      ''class Calculator:\<newline>'' @
      ''    """Main calculator class"""\<newline>'' @
      ''\<newline>'' @
      ''    def __init__(self):\<newline>'' @
      ''        self.precision = ''\<close>

definition main_angle_unit :: string where
  \<open>main_angle_unit =
      ''\<newline>'' @
      ''        self.angle_unit = "''\<close>

definition main_format_and_run :: string where
  \<open>main_format_and_run =
      ''\<newline>'' @
      ''    def format_result(self, result):\<newline>'' @
      ''        """Format calculation result"""\<newline>'' @
      ''        if isinstance(result, (int, float)):\<newline>'' @
      ''            return round(result, self.precision)\<newline>'' @
      ''        return result\<newline>'' @
      ''\<newline>'' @
      ''    def run(self):\<newline>'' @
      ''        """Run the calculator interface"""\<newline>''\<close>

definition main_call_banner :: string where
  \<open>main_call_banner =
      ''        self.show_banner()\<newline>''\<close>

definition main_interactive_head :: string where
  \<open>main_interactive_head =
      ''        self.interactive_mode()\<newline>'' @
      ''\<newline>'' @
      ''    def interactive_mode(self):\<newline>'' @
      ''        """Interactive calculator mode"""\<newline>'' @
      ''        print("Calculator started. Type 'help' for commands, 'quit' to exit.")\<newline>'' @
      ''\<newline>'' @
      ''        while True:\<newline>'' @
      ''            try:\<newline>'' @
      ''                user_input = input("calc> ").strip()\<newline>'' @
      ''\<newline>'' @
      ''                if user_input.lower() in ['quit', 'exit', 'q']:\<newline>'' @
      ''                    break\<newline>'' @
      ''                elif user_input.lower() == 'help':\<newline>'' @
      ''                    self.show_help()\<newline>'' @
      ''                elif user_input.lower() == 'clear':\<newline>'' @
      ''                    os.system('cls' if os.name == 'nt' else 'clear')\<newline>''\<close>

definition main_mem_branch :: string where
  \<open>main_mem_branch =
      ''                elif user_input.lower().startswith('mem'):\<newline>'' @
      ''                    self.handle_memory_commands(user_input)\<newline>''\<close>

definition main_hist_branch :: string where
  \<open>main_hist_branch =
      ''                elif user_input.lower().startswith('hist'):\<newline>'' @
      ''                    self.handle_history_commands(user_input)\<newline>''\<close>

definition main_else_branch :: string where
  \<open>main_else_branch =
      ''                else:\<newline>'' @
      ''                    result = self.evaluate_expression(user_input)\<newline>'' @
      ''                    formatted_result = self.format_result(result)\<newline>'' @
      ''                    print(f"Result: {formatted_result}")\<newline>''\<close>

definition main_hist_add :: string where
  \<open>main_hist_add =
      ''                    self.history.add_entry(user_input, formatted_result)\<newline>''\<close>

definition main_interactive_tail :: string where
  \<open>main_interactive_tail =
      ''\<newline>'' @
      ''            except KeyboardInterrupt:\<newline>'' @
      ''                print("'' @ [CHR 0x5C] @ ''nGoodbye!")\<newline>'' @
      ''                break\<newline>'' @
      ''            except Exception as e:\<newline>'' @
      ''                print(f"Error: {e}")\<newline>''\<close>

definition main_banner_head :: string where
  \<open>main_banner_head =
      ''\<newline>'' @
      ''    def show_banner(self):\<newline>'' @
      ''        """Display calculator banner"""\<newline>'' @
      ''        print("="*50)\<newline>'' @
      ''        print(f"  ''\<close>

definition main_banner_mid :: string where
  \<open>main_banner_mid =
      ''")\<newline>'' @
      ''        print(f"  ''\<close>

definition main_banner_tail :: string where
  \<open>main_banner_tail =
      ''")\<newline>'' @
      ''        print("="*50)\<newline>''\<close>

definition main_help_head :: string where
  \<open>main_help_head =
      ''\<newline>'' @
      ''    def show_help(self):\<newline>'' @
      ''        """Display help information"""\<newline>'' @
      ''        help_text = """\<newline>'' @
      ''Available commands:\<newline>'' @
      ''  Basic operations: +, -, *, /, **, %\<newline>'' @
      ''  Functions: sin(), cos(), tan(), log(), ln(), sqrt()\<newline>''\<close>

definition main_help_memory :: string where
  \<open>main_help_memory =
      ''  Memory: mem store <value>, mem recall, mem clear\<newline>''\<close>

definition main_help_history :: string where
  \<open>main_help_history =
      ''  History: hist show, hist clear, hist save\<newline>''\<close>

definition main_help_tail :: string where
  \<open>main_help_tail =
      ''  Other: help, clear, quit\<newline>'' @
      ''        """\<newline>'' @
      ''        print(help_text)\<newline>''\<close>

definition main_evaluate_head :: string where
  \<open>main_evaluate_head =
      ''\<newline>'' @
      ''    def evaluate_expression(self, expression):\<newline>'' @
      ''        """Evaluate mathematical expression"""\<newline>'' @
      ''        # Basic expression evaluation\<newline>'' @
      ''        try:\<newline>'' @
      ''            # Replace common functions\<newline>'' @
      ''            expression = expression.replace('^', '**')\<newline>'' @
      ''            ''\<close>

definition main_safe_dict_math :: string where
  \<open>main_safe_dict_math =
      ''\<newline>'' @
      ''            # Add math functions to evaluation context\<newline>'' @
      ''            safe_dict = {\<newline>'' @
      ''                "__builtins__": {},\<newline>'' @
      ''                "abs": abs, "round": round, "min": min, "max": max,\<newline>'' @
      ''                "sqrt": math.sqrt, "pi": math.pi, "e": math.e\<newline>'' @
      ''            }''\<close>

definition main_safe_dict_trig :: string where
  \<open>main_safe_dict_trig =
      ''\<newline>'' @
      ''            safe_dict.update({\<newline>'' @
      ''                "sin": lambda x: sin(x, self.angle_unit),\<newline>'' @
      ''                "cos": lambda x: cos(x, self.angle_unit),\<newline>'' @
      ''                "tan": lambda x: tan(x, self.angle_unit),\<newline>'' @
      ''                "asin": lambda x: asin(x, self.angle_unit),\<newline>'' @
      ''                "acos": lambda x: acos(x, self.angle_unit),\<newline>'' @
      ''                "atan": lambda x: atan(x, self.angle_unit)\<newline>'' @
      ''            })''\<close>

definition main_safe_dict_log :: string where
  \<open>main_safe_dict_log =
      ''\<newline>'' @
      ''            safe_dict.update({\<newline>'' @
      ''                "log": log, "ln": ln, "log10": log10, "log2": log2\<newline>'' @
      ''            })''\<close>

definition main_safe_dict_plain :: string where
  \<open>main_safe_dict_plain =
      ''\<newline>'' @
      ''            safe_dict = {\<newline>'' @
      ''                "__builtins__": {},\<newline>'' @
      ''                "abs": abs, "round": round, "min": min, "max": max\<newline>'' @
      ''            }''\<close>

definition main_safe_dict_numpy :: string where
  \<open>main_safe_dict_numpy =
      ''\<newline>'' @
      ''            safe_dict.update({\<newline>'' @
      ''                "np": np, "array": np.array, "mean": mean,\<newline>'' @
      ''                "median": median, "std": std\<newline>'' @
      ''            })''\<close>

definition main_evaluate_tail :: string where
  \<open>main_evaluate_tail =
      ''\<newline>'' @
      ''\<newline>'' @
      ''            return eval(expression, safe_dict)\<newline>'' @
      ''        except Exception as e:\<newline>'' @
      ''            raise ValueError(f"Invalid expression: {e}")\<newline>''\<close>

definition main_memory_commands :: string where
  \<open>main_memory_commands =
      ''\<newline>'' @
      ''    def handle_memory_commands(self, command):\<newline>'' @
      ''        """Handle memory-related commands"""\<newline>'' @
      ''        parts = command.split()\<newline>'' @
      ''        if len(parts) < 2:\<newline>'' @
      ''            print("Memory commands: mem store <value>, mem recall, mem clear")\<newline>'' @
      ''            return\<newline>'' @
      ''\<newline>'' @
      ''        action = parts[1].lower()\<newline>'' @
      ''        if action == "store" and len(parts) > 2:\<newline>'' @
      ''            try:\<newline>'' @
      ''                value = float(parts[2])\<newline>'' @
      ''                print(self.memory.store(value))\<newline>'' @
      ''            except ValueError:\<newline>'' @
      ''                print("Invalid value for memory storage")\<newline>'' @
      ''        elif action == "recall":\<newline>'' @
      ''            print(f"Memory: {self.memory.recall()}")\<newline>'' @
      ''        elif action == "clear":\<newline>'' @
      ''            print(self.memory.clear())\<newline>'' @
      ''        else:\<newline>'' @
      ''            print("Unknown memory command")\<newline>''\<close>

definition main_history_commands :: string where
  \<open>main_history_commands =
      ''\<newline>'' @
      ''    def handle_history_commands(self, command):\<newline>'' @
      ''        """Handle history-related commands"""\<newline>'' @
      ''        parts = command.split()\<newline>'' @
      ''        if len(parts) < 2:\<newline>'' @
      ''            print("History commands: hist show, hist clear, hist save")\<newline>'' @
      ''            return\<newline>'' @
      ''\<newline>'' @
      ''        action = parts[1].lower()\<newline>'' @
      ''        if action == "show":\<newline>'' @
      ''            count = 10\<newline>'' @
      ''            if len(parts) > 2:\<newline>'' @
      ''                try:\<newline>'' @
      ''                    count = int(parts[2])\<newline>'' @
      ''                except ValueError:\<newline>'' @
      ''                    pass\<newline>'' @
      ''            history = self.history.get_history(count)\<newline>'' @
      ''            for entry in history:\<newline>'' @
      ''                print(f"{entry['timestamp']}: {entry['operation']} = {entry['result']}")\<newline>'' @
      ''        elif action == "clear":\<newline>'' @
      ''            print(self.history.clear_history())\<newline>'' @
      ''        elif action == "save":\<newline>'' @
      ''            filename = "calculator_history.json"\<newline>'' @
      ''            if len(parts) > 2:\<newline>'' @
      ''                filename = parts[2]\<newline>'' @
      ''            print(self.history.save_to_file(filename))\<newline>'' @
      ''        else:\<newline>'' @
      ''            print("Unknown history command")\<newline>''\<close>

definition generateMainContent :: "CalculatorConfig \<Rightarrow> string" where
  \<open>generateMainContent g =
    main_class_head @ Sprintf_d (Precision (UI g)) @ main_angle_unit @ AngleUnit (UI g) @
      ''"\<newline>'' @
    (if Memory (Features g) then ''        self.memory = Memory()\<newline>'' else '''') @
    (if History (Features g) then ''        self.history = History()\<newline>'' else '''') @
    main_format_and_run @
    (if ShowBanner (UI g) then main_call_banner else '''') @
    (if Interactive g then
       main_interactive_head @
       (if Memory (Features g) then main_mem_branch else '''') @
       (if History (Features g) then main_hist_branch else '''') @
       main_else_branch @
       (if History (Features g) then main_hist_add else '''') @
       main_interactive_tail
     else '''') @
    (if ShowBanner (UI g) then
       main_banner_head @ ProjectName g @ main_banner_mid @ Description g @ main_banner_tail
     else '''') @
    (if ShowHelp (UI g) then
       main_help_head @
       (if Memory (Features g) then main_help_memory else '''') @
       (if History (Features g) then main_help_history else '''') @
       main_help_tail
     else '''') @
    main_evaluate_head @
    (if UseMath (Libraries g) then
       main_safe_dict_math @
       (if Trigonometric (Features g) then main_safe_dict_trig else '''') @
       (if Logarithmic (Features g) then main_safe_dict_log else '''')
     else main_safe_dict_plain) @
    (if UseNumpy (Libraries g) then main_safe_dict_numpy else '''') @
    main_evaluate_tail @
    (if Memory (Features g) then main_memory_commands else '''') @
    (if History (Features g) then main_history_commands else '''')\<close>

definition prepareTemplateData :: "host \<Rightarrow> CalculatorConfig \<Rightarrow> TemplateData" where
  "prepareTemplateData h g =
    (let imports = generateImports g;
         functions = generateFunctions g;
         mainContent = generateMainContent g
     in \<lparr> Config = g, Imports = imports, Functions = functions, MainContent = mainContent,
          Version = ''1.0.0'', Timestamp = Now h \<rparr>)"

text \<open>
  \<^verbatim>\<open>renderTemplate\<close> parses a constant template and executes it on the data. The
  template has only field actions and two \<^verbatim>\<open>range\<close> actions over string slices, so
  neither step can fail: the text between the actions is copied as it is, a field
  action writes the string, and a \<^verbatim>\<open>range\<close> action writes its body once per element.
\<close>

definition renderTemplate :: "TemplateData \<Rightarrow> error + string" where
  \<open>renderTemplate data = Inr (
      ''#!/usr/bin/env python3\<newline>'' @
      ''"""\<newline>'' @
    ProjectName (Config data) @
      ''\<newline>'' @
    Description (Config data) @
      ''\<newline>'' @
      ''\<newline>'' @
      ''Generated by Calculator Generator\<newline>'' @
      ''Author: '' @
    Author (Config data) @
      ''\<newline>'' @
      ''Version: '' @
    Version data @
      ''\<newline>'' @
      ''Generated: '' @
    Timestamp data @
      ''\<newline>'' @
      ''"""\<newline>'' @
      ''\<newline>'' @
    concat (map (\<lambda>i. i @
      ''\<newline>'') (Imports data)) @
      ''\<newline>'' @
      ''\<newline>'' @
    concat (map (\<lambda>f.
      ''\<newline>'' @ f @
      ''\<newline>'' @
      ''\<newline>'') (Functions data)) @
      ''\<newline>'' @
      ''\<newline>'' @
    MainContent data @
      ''\<newline>'' @
      ''\<newline>'' @
      ''if __name__ == "__main__":\<newline>'' @
      ''    calculator = Calculator()\<newline>'' @
      ''    calculator.run()\<newline>'')\<close>

section \<open>The desktop generator\<close>

definition generateGUIImports :: "CalculatorConfig \<Rightarrow> string list" where
  "generateGUIImports g =
    [''import tkinter as tk''] @
    [''from tkinter import ttk, messagebox, simpledialog''] @
    [''import math''] @
    [''import sys''] @
    [''import os''] @
    (if History (Features g) then [''import json'', ''from datetime import datetime''] else []) @
    (if UseNumpy (Libraries g) then [''import numpy as np''] else []) @
    (if UsePandas (Libraries g) then [''import pandas as pd''] else []) @
    (if UseScipy (Libraries g) then
       [''import scipy as sp'', ''from scipy import stats, optimize, integrate''] else []) @
    (if UseSympy (Libraries g) then
       [''import sympy as sym'',
        ''from sympy import symbols, solve, diff, integrate as sym_integrate''] else []) @
    (if UsePlotly (Libraries g) \<or> Plotting (Features g) then
       [''import plotly.graph_objects as go'', ''import plotly.express as px''] else []) @
    (if ComplexNumbers (Features g) then [''import cmath''] else [])"

text \<open>The methods of \<^verbatim>\<open>GUIGenerator\<close> that share a name with a method of
  \<^verbatim>\<open>Generator\<close> carry the prefix \<open>GUI_\<close>.\<close>

definition generateBasicArithmeticFunctions :: "string list" where
  \<open>generateBasicArithmeticFunctions = [
      ''def safe_eval(expression):\<newline>'' @
      ''    """Safely evaluate mathematical expressions"""\<newline>'' @
      ''    try:\<newline>'' @
      ''        # Replace common symbols\<newline>'' @
      ''        expression = expression.replace('^', '**')\<newline>'' @
      ''        expression = expression.replace('' @ [CHR 0x27, CHR 0xC3, CHR 0x97, CHR 0x27] @ '', '*')\<newline>'' @
      ''        expression = expression.replace('' @ [CHR 0x27, CHR 0xC3, CHR 0xB7, CHR 0x27] @ '', '/')\<newline>'' @
      ''\<newline>'' @
      ''        # Create safe evaluation context\<newline>'' @
      ''        safe_dict = {\<newline>'' @
      ''            "__builtins__": {},\<newline>'' @
      ''            "abs": abs, "round": round, "min": min, "max": max,\<newline>'' @
      ''            "sqrt": math.sqrt, "pi": math.pi, "e": math.e,\<newline>'' @
      ''            "sin": math.sin, "cos": math.cos, "tan": math.tan,\<newline>'' @
      ''            "asin": math.asin, "acos": math.acos, "atan": math.atan,\<newline>'' @
      ''            "log": math.log10, "ln": math.log, "log10": math.log10,\<newline>'' @
      ''            "exp": math.exp, "pow": pow\<newline>'' @
      ''        }\<newline>'' @
      ''\<newline>'' @
      ''        return eval(expression, safe_dict)\<newline>'' @
      ''    except Exception as e:\<newline>'' @
      ''        raise ValueError(f"Invalid expression: {str(e)}")'']\<close>

definition GUI_generateTrigonometricFunctions :: "string list" where
  \<open>GUI_generateTrigonometricFunctions = [
      ''def deg_to_rad(degrees):\<newline>'' @
      ''    """Convert degrees to radians"""\<newline>'' @
      ''    return math.radians(degrees)\<newline>'' @
      ''\<newline>'' @
      ''def rad_to_deg(radians):\<newline>'' @
      ''    """Convert radians to degrees"""\<newline>'' @
      ''    return math.degrees(radians)'']\<close>

definition GUI_generateLogarithmicFunctions :: "string list" where
  \<open>GUI_generateLogarithmicFunctions = [
      ''def safe_log(x, base=10):\<newline>'' @
      ''    """Safe logarithm function"""\<newline>'' @
      ''    if x <= 0:\<newline>'' @
      ''        raise ValueError("Logarithm input must be positive")\<newline>'' @
      ''    if base == math.e:\<newline>'' @
      ''        return math.log(x)\<newline>'' @
      ''    return math.log(x, base)'']\<close>

definition GUI_generateStatisticalFunctions :: "string list" where
  \<open>GUI_generateStatisticalFunctions = [
      ''def calculate_stats(data_str):\<newline>'' @
      ''    """Calculate statistics from comma-separated data"""\<newline>'' @
      ''    try:\<newline>'' @
      ''        data = [float(x.strip()) for x in data_str.split(',')]\<newline>'' @
      ''        return {\<newline>'' @
      ''            'mean': np.mean(data),\<newline>'' @
      ''            'median': np.median(data),\<newline>'' @
      ''            'std': np.std(data),\<newline>'' @
      ''            'var': np.var(data),\<newline>'' @
      ''            'min': np.min(data),\<newline>'' @
      ''            'max': np.max(data)\<newline>'' @
      ''        }\<newline>'' @
      ''    except Exception as e:\<newline>'' @
      ''        raise ValueError(f"Invalid data format: {str(e)}")'']\<close>

definition generateMemoryClass :: string where
  \<open>generateMemoryClass =
      ''class MemoryManager:\<newline>'' @
      ''    """Handles calculator memory operations"""\<newline>'' @
      ''    def __init__(self):\<newline>'' @
      ''        self.memory = 0\<newline>'' @
      ''\<newline>'' @
      ''    def store(self, value):\<newline>'' @
      ''        """Store value in memory"""\<newline>'' @
      ''        self.memory = float(value)\<newline>'' @
      ''\<newline>'' @
      ''    def recall(self):\<newline>'' @
      ''        """Recall value from memory"""\<newline>'' @
      ''        return self.memory\<newline>'' @
      ''\<newline>'' @
      ''    def clear(self):\<newline>'' @
      ''        """Clear memory"""\<newline>'' @
      ''        self.memory = 0\<newline>'' @
      ''\<newline>'' @
      ''    def add(self, value):\<newline>'' @
      ''        """Add value to memory"""\<newline>'' @
      ''        self.memory += float(value)\<newline>'' @
      ''\<newline>'' @
      ''    def subtract(self, value):\<newline>'' @
      ''        """Subtract value from memory"""\<newline>'' @
      ''        self.memory -= float(value)''\<close>

definition generateHistoryClass :: string where
  \<open>generateHistoryClass =
      ''class HistoryManager:\<newline>'' @
      ''    """Handles calculation history"""\<newline>'' @
      ''    def __init__(self, max_entries=100):\<newline>'' @
      ''        self.history = []\<newline>'' @
      ''        self.max_entries = max_entries\<newline>'' @
      ''\<newline>'' @
      ''    def add_entry(self, expression, result):\<newline>'' @
      ''        """Add calculation to history"""\<newline>'' @
      ''        entry = {\<newline>'' @
      ''            'timestamp': datetime.now().strftime('%H:%M:%S'),\<newline>'' @
      ''            'expression': expression,\<newline>'' @
      ''            'result': str(result)\<newline>'' @
      ''        }\<newline>'' @
      ''        self.history.append(entry)\<newline>'' @
      ''\<newline>'' @
      ''        # Keep only max_entries\<newline>'' @
      ''        if len(self.history) > self.max_entries:\<newline>'' @
      ''            self.history = self.history[-self.max_entries:]\<newline>'' @
      ''\<newline>'' @
      ''    def get_history(self):\<newline>'' @
      ''        """Get all history entries"""\<newline>'' @
      ''        return self.history\<newline>'' @
      ''\<newline>'' @
      ''    def clear(self):\<newline>'' @
      ''        """Clear history"""\<newline>'' @
      ''        self.history = []\<newline>'' @
      ''\<newline>'' @
      ''    def save_to_file(self, filename):\<newline>'' @
      ''        """Save history to file"""\<newline>'' @
      ''        with open(filename, 'w') as f:\<newline>'' @
      ''            json.dump(self.history, f, indent=2)''\<close>

definition generateGUIFunctions :: "CalculatorConfig \<Rightarrow> string list" where
  "generateGUIFunctions g =
    (if BasicArithmetic (Features g) then generateBasicArithmeticFunctions else []) @
    (if Trigonometric (Features g) then GUI_generateTrigonometricFunctions else []) @
    (if Logarithmic (Features g) then GUI_generateLogarithmicFunctions else []) @
    (if Statistical (Features g) \<and> UseNumpy (Libraries g) then GUI_generateStatisticalFunctions else []) @
    (if Memory (Features g) then [generateMemoryClass] else []) @
    (if History (Features g) then [generateHistoryClass] else [])"

definition generateBasicLayout :: "CalculatorConfig \<Rightarrow> string" where
  \<open>generateBasicLayout g =
      ''\<newline>'' @
      ''\<newline>'' @
      ''        # Basic calculator layout (4x5 grid)\<newline>'' @
      ''        row = 0\<newline>'' @
      ''\<newline>'' @
      ''        # Memory buttons (if enabled)'' @
    (if Memory (Features g) then
      ''\<newline>'' @
      ''        if hasattr(self, 'mem_buttons'):\<newline>'' @
      ''            col = 0\<newline>'' @
      ''            for text, button in self.mem_buttons.items():\<newline>'' @
      ''                button.grid(row=row, column=col, padx=2, pady=2, sticky='nsew')\<newline>'' @
      ''                col += 1\<newline>'' @
      ''            row += 1''
     else '''') @
      ''\<newline>'' @
      ''\<newline>'' @
      ''        # Clear buttons\<newline>'' @
      ''        self.op_buttons['CE'].grid(row=row, column=0, padx=2, pady=2, sticky='nsew')\<newline>'' @
      ''        self.op_buttons['C'].grid(row=row, column=1, padx=2, pady=2, sticky='nsew')\<newline>'' @
      ''        row += 1\<newline>'' @
      ''\<newline>'' @
      ''        # Number and operator layout\<newline>'' @
      ''        # Row 1: 7, 8, 9, /\<newline>'' @
      ''        self.num_buttons[7].grid(row=row, column=0, padx=2, pady=2, sticky='nsew')\<newline>'' @
      ''        self.num_buttons[8].grid(row=row, column=1, padx=2, pady=2, sticky='nsew')\<newline>'' @
      ''        self.num_buttons[9].grid(row=row, column=2, padx=2, pady=2, sticky='nsew')\<newline>'' @
      ''        self.op_buttons['/'].grid(row=row, column=3, padx=2, pady=2, sticky='nsew')\<newline>'' @
      ''        row += 1\<newline>'' @
      ''\<newline>'' @
      ''        # Row 2: 4, 5, 6, *\<newline>'' @
      ''        self.num_buttons[4].grid(row=row, column=0, padx=2, pady=2, sticky='nsew')\<newline>'' @
      ''        self.num_buttons[5].grid(row=row, column=1, padx=2, pady=2, sticky='nsew')\<newline>'' @
      ''        self.num_buttons[6].grid(row=row, column=2, padx=2, pady=2, sticky='nsew')\<newline>'' @
      ''        self.op_buttons['*'].grid(row=row, column=3, padx=2, pady=2, sticky='nsew')\<newline>'' @
      ''        row += 1\<newline>'' @
      ''\<newline>'' @
      ''        # Row 3: 1, 2, 3, -\<newline>'' @
      ''        self.num_buttons[1].grid(row=row, column=0, padx=2, pady=2, sticky='nsew')\<newline>'' @
      ''        self.num_buttons[2].grid(row=row, column=1, padx=2, pady=2, sticky='nsew')\<newline>'' @
      ''        self.num_buttons[3].grid(row=row, column=2, padx=2, pady=2, sticky='nsew')\<newline>'' @
      ''        self.op_buttons['-'].grid(row=row, column=3, padx=2, pady=2, sticky='nsew')\<newline>'' @
      ''        row += 1\<newline>'' @
      ''\<newline>'' @
      ''        # Row 4: 0, ., =, +\<newline>'' @
      ''        self.num_buttons[0].grid(row=row, column=0, columnspan=2, padx=2, pady=2, sticky='nsew')\<newline>'' @
      ''        self.op_buttons['.'].grid(row=row, column=2, padx=2, pady=2, sticky='nsew')\<newline>'' @
      ''        self.op_buttons['+'].grid(row=row, column=3, padx=2, pady=2, sticky='nsew')\<newline>'' @
      ''        row += 1\<newline>'' @
      ''\<newline>'' @
      ''        # Equals button\<newline>'' @
      ''        self.op_buttons['='].grid(row=row, column=0, columnspan=4, padx=2, pady=2, sticky='nsew')\<newline>'' @
      ''\<newline>'' @
      ''        # Configure grid weights\<newline>'' @
      ''        for i in range(4):\<newline>'' @
      ''            self.button_frame.columnconfigure(i, weight=1)\<newline>'' @
      ''        for i in range(row + 1):\<newline>'' @
      ''            self.button_frame.rowconfigure(i, weight=1)''\<close>

definition generateScientificLayout :: "CalculatorConfig \<Rightarrow> string" where
  \<open>generateScientificLayout g =
      ''\<newline>'' @
      ''\<newline>'' @
      ''        # Scientific calculator layout (6x8 grid)\<newline>'' @
      ''        row = 0\<newline>'' @
      ''\<newline>'' @
      ''        # Memory buttons (if enabled)'' @
    (if Memory (Features g) then
      ''\<newline>'' @
      ''        if hasattr(self, 'mem_buttons'):\<newline>'' @
      ''            col = 0\<newline>'' @
      ''            for text, button in self.mem_buttons.items():\<newline>'' @
      ''                button.grid(row=row, column=col, padx=1, pady=1, sticky='nsew')\<newline>'' @
      ''                col += 1\<newline>'' @
      ''            row += 1''
     else '''') @
    (if Trigonometric (Features g) then
      ''\<newline>'' @
      ''\<newline>'' @
      ''        # Trigonometric functions\<newline>'' @
      ''        if hasattr(self, 'trig_buttons'):\<newline>'' @
      ''            col = 0\<newline>'' @
      ''            for text, button in self.trig_buttons.items():\<newline>'' @
      ''                button.grid(row=row, column=col, padx=1, pady=1, sticky='nsew')\<newline>'' @
      ''                col += 1\<newline>'' @
      ''            row += 1''
     else '''') @
    (if Logarithmic (Features g) then
      ''\<newline>'' @
      ''\<newline>'' @
      ''        # Logarithmic functions\<newline>'' @
      ''        if hasattr(self, 'log_buttons'):\<newline>'' @
      ''            col = 3\<newline>'' @
      ''            for text, button in self.log_buttons.items():\<newline>'' @
      ''                button.grid(row=row-1, column=col, padx=1, pady=1, sticky='nsew')\<newline>'' @
      ''                col += 1''
     else '''') @
      ''\<newline>'' @
      ''\<newline>'' @
      ''        # Clear buttons\<newline>'' @
      ''        self.op_buttons['CE'].grid(row=row, column=0, padx=1, pady=1, sticky='nsew')\<newline>'' @
      ''        self.op_buttons['C'].grid(row=row, column=1, padx=1, pady=1, sticky='nsew')\<newline>'' @
      ''        row += 1\<newline>'' @
      ''\<newline>'' @
      ''        # Standard calculator layout\<newline>'' @
      ''        # Row: 7, 8, 9, /\<newline>'' @
      ''        self.num_buttons[7].grid(row=row, column=0, padx=1, pady=1, sticky='nsew')\<newline>'' @
      ''        self.num_buttons[8].grid(row=row, column=1, padx=1, pady=1, sticky='nsew')\<newline>'' @
      ''        self.num_buttons[9].grid(row=row, column=2, padx=1, pady=1, sticky='nsew')\<newline>'' @
      ''        self.op_buttons['/'].grid(row=row, column=3, padx=1, pady=1, sticky='nsew')\<newline>'' @
      ''        row += 1\<newline>'' @
      ''\<newline>'' @
      ''        # Row: 4, 5, 6, *\<newline>'' @
      ''        self.num_buttons[4].grid(row=row, column=0, padx=1, pady=1, sticky='nsew')\<newline>'' @
      ''        self.num_buttons[5].grid(row=row, column=1, padx=1, pady=1, sticky='nsew')\<newline>'' @
      ''        self.num_buttons[6].grid(row=row, column=2, padx=1, pady=1, sticky='nsew')\<newline>'' @
      ''        self.op_buttons['*'].grid(row=row, column=3, padx=1, pady=1, sticky='nsew')\<newline>'' @
      ''        row += 1\<newline>'' @
      ''\<newline>'' @
      ''        # Row: 1, 2, 3, -\<newline>'' @
      ''        self.num_buttons[1].grid(row=row, column=0, padx=1, pady=1, sticky='nsew')\<newline>'' @
      ''        self.num_buttons[2].grid(row=row, column=1, padx=1, pady=1, sticky='nsew')\<newline>'' @
      ''        self.num_buttons[3].grid(row=row, column=2, padx=1, pady=1, sticky='nsew')\<newline>'' @
      ''        self.op_buttons['-'].grid(row=row, column=3, padx=1, pady=1, sticky='nsew')\<newline>'' @
      ''        row += 1\<newline>'' @
      ''\<newline>'' @
      ''        # Row: 0, ., =, +\<newline>'' @
      ''        self.num_buttons[0].grid(row=row, column=0, columnspan=2, padx=1, pady=1, sticky='nsew')\<newline>'' @
      ''        self.op_buttons['.'].grid(row=row, column=2, padx=1, pady=1, sticky='nsew')\<newline>'' @
      ''        self.op_buttons['+'].grid(row=row, column=3, padx=1, pady=1, sticky='nsew')\<newline>'' @
      ''        row += 1\<newline>'' @
      ''\<newline>'' @
      ''        # Equals button\<newline>'' @
      ''        self.op_buttons['='].grid(row=row, column=0, columnspan=4, padx=1, pady=1, sticky='nsew')\<newline>'' @
      ''\<newline>'' @
      ''        # Configure grid weights\<newline>'' @
      ''        for i in range(6):\<newline>'' @
      ''            self.button_frame.columnconfigure(i, weight=1)\<newline>'' @
      ''        for i in range(row + 1):\<newline>'' @
      ''            self.button_frame.rowconfigure(i, weight=1)''\<close>

text \<open>The pieces of text that \<^verbatim>\<open>generateGUIMainContent\<close> writes to its string
  builder, in the order of the source.\<close>

definition gui_class_head :: string where
  \<open>gui_class_head =
      ''class CalculatorGUI:\<newline>'' @
      ''    """Main GUI Calculator Application"""\<newline>'' @
      ''\<newline>'' @
      ''    def __init__(self):\<newline>'' @
      ''        self.root = tk.Tk()\<newline>'' @
      ''        self.root.title("''\<close>

definition gui_window_state :: string where
  \<open>gui_window_state =
      ''")\<newline>'' @
      ''        self.root.geometry("400x600")\<newline>'' @
      ''        self.root.resizable(False, False)\<newline>'' @
      ''\<newline>'' @
      ''        # Calculator state\<newline>'' @
      ''        self.display_var = tk.StringVar()\<newline>'' @
      ''        self.display_var.set("0")\<newline>'' @
      ''        self.current_expression = ""\<newline>'' @
      ''        self.result_shown = False\<newline>'' @
      ''        self.angle_unit = "''\<close>

definition gui_precision :: string where
  \<open>gui_precision =
      ''"\<newline>'' @
      ''        self.precision = ''\<close>

definition gui_state_end :: string where
  \<open>gui_state_end =
      ''\<newline>'' @
      ''\<newline>''\<close>

definition gui_setup_and_widgets :: string where
  \<open>gui_setup_and_widgets =
      ''\<newline>'' @
      ''        # Setup GUI\<newline>'' @
      ''        self.create_widgets()\<newline>'' @
      ''        self.setup_layout()\<newline>'' @
      ''        self.setup_bindings()\<newline>'' @
      ''\<newline>'' @
      ''        # Apply theme\<newline>'' @
      ''        self.apply_theme()\<newline>'' @
      ''\<newline>'' @
      ''    def create_widgets(self):\<newline>'' @
      ''        """Create all GUI widgets"""\<newline>'' @
      ''        # Main frame\<newline>'' @
      ''        self.main_frame = ttk.Frame(self.root, padding="10")\<newline>'' @
      ''\<newline>'' @
      ''        # Display frame\<newline>'' @
      ''        self.display_frame = ttk.Frame(self.main_frame)\<newline>'' @
      ''        self.display = ttk.Entry(\<newline>'' @
      ''            self.display_frame,\<newline>'' @
      ''            textvariable=self.display_var,\<newline>'' @
      ''            justify='right',\<newline>'' @
      ''            state='readonly'' @ [CHR 0x27] @ ''\<newline>'' @
      ''        )\<newline>'' @
      ''\<newline>'' @
      ''        # Expression display\<newline>'' @
      ''        self.expr_var = tk.StringVar()\<newline>'' @
      ''        self.expr_display = ttk.Label(\<newline>'' @
      ''            self.display_frame,\<newline>'' @
      ''            textvariable=self.expr_var\<newline>'' @
      ''        )\<newline>'' @
      ''\<newline>'' @
      ''        # Button frame\<newline>'' @
      ''        self.button_frame = ttk.Frame(self.main_frame)\<newline>'' @
      ''\<newline>'' @
      ''        # Create calculator buttons\<newline>'' @
      ''        self.create_buttons()\<newline>''\<close>

definition gui_call_create_menu :: string where
  \<open>gui_call_create_menu =
      ''\<newline>'' @
      ''        # Create menu\<newline>'' @
      ''        self.create_menu()\<newline>''\<close>

definition gui_create_buttons :: string where
  \<open>gui_create_buttons =
      ''\<newline>'' @
      ''    def create_buttons(self):\<newline>'' @
      ''        """Create calculator buttons"""\<newline>'' @
      ''        # Button configuration\<newline>'' @
      ''        button_config = {\<newline>'' @
      ''            'width': 5\<newline>'' @
      ''        }\<newline>'' @
      ''\<newline>'' @
      ''        # Number buttons (0-9)\<newline>'' @
      ''        self.num_buttons = {}\<newline>'' @
      ''        for i in range(10):\<newline>'' @
      ''            self.num_buttons[i] = ttk.Button(\<newline>'' @
      ''                self.button_frame,\<newline>'' @
      ''                text=str(i),\<newline>'' @
      ''                command=lambda n=i: self.append_number(str(n)),\<newline>'' @
      ''                **button_config\<newline>'' @
      ''            )\<newline>'' @
      ''\<newline>'' @
      ''        # Operator buttons\<newline>'' @
      ''        self.op_buttons = {\<newline>'' @
      ''            '+': ttk.Button(self.button_frame, text='+', command=lambda: self.append_operator('+'), **button_config),\<newline>'' @
      ''            '-': ttk.Button(self.button_frame, text='-', command=lambda: self.append_operator('-'), **button_config),\<newline>'' @
      ''            '*': ttk.Button(self.button_frame, text='' @ [CHR 0x27, CHR 0xC3, CHR 0x97, CHR 0x27] @ '', command=lambda: self.append_operator('*'), **button_config),\<newline>'' @
      ''            '/': ttk.Button(self.button_frame, text='' @ [CHR 0x27, CHR 0xC3, CHR 0xB7, CHR 0x27] @ '', command=lambda: self.append_operator('/'), **button_config),\<newline>'' @
      ''            '=': ttk.Button(self.button_frame, text='=', command=self.calculate, **button_config),\<newline>'' @
      ''            '.': ttk.Button(self.button_frame, text='.', command=lambda: self.append_number('.'), **button_config),\<newline>'' @
      ''            'C': ttk.Button(self.button_frame, text='C', command=self.clear, **button_config),\<newline>'' @
      ''            'CE': ttk.Button(self.button_frame, text='CE', command=self.clear_entry, **button_config),\<newline>'' @
      ''        }\<newline>'' @
      ''\<newline>'' @
      ''        # Advanced function buttons''\<close>

definition gui_trig_buttons :: string where
  \<open>gui_trig_buttons =
      ''\<newline>'' @
      ''        if True:  # Trigonometric functions\<newline>'' @
      ''            self.trig_buttons = {\<newline>'' @
      ''                'sin': ttk.Button(self.button_frame, text='sin', command=lambda: self.append_function('sin'), **button_config),\<newline>'' @
      ''                'cos': ttk.Button(self.button_frame, text='cos', command=lambda: self.append_function('cos'), **button_config),\<newline>'' @
      ''                'tan': ttk.Button(self.button_frame, text='tan', command=lambda: self.append_function('tan'), **button_config),\<newline>'' @
      ''            }''\<close>

definition gui_log_buttons :: string where
  \<open>gui_log_buttons =
      ''\<newline>'' @
      ''        if True:  # Logarithmic functions\<newline>'' @
      ''            self.log_buttons = {\<newline>'' @
      ''                'log': ttk.Button(self.button_frame, text='log', command=lambda: self.append_function('log'), **button_config),\<newline>'' @
      ''                'ln': ttk.Button(self.button_frame, text='ln', command=lambda: self.append_function('ln'), **button_config),\<newline>'' @
      ''            }''\<close>

definition gui_mem_buttons :: string where
  \<open>gui_mem_buttons =
      ''\<newline>'' @
      ''        if True:  # Memory functions\<newline>'' @
      ''            self.mem_buttons = {\<newline>'' @
      ''                'MS': ttk.Button(self.button_frame, text='MS', command=self.memory_store, **button_config),\<newline>'' @
      ''                'MR': ttk.Button(self.button_frame, text='MR', command=self.memory_recall, **button_config),\<newline>'' @
      ''                'MC': ttk.Button(self.button_frame, text='MC', command=self.memory_clear, **button_config),\<newline>'' @
      ''            }''\<close>

definition gui_setup_layout :: string where
  \<open>gui_setup_layout =
      ''\<newline>'' @
      ''\<newline>'' @
      ''    def setup_layout(self):\<newline>'' @
      ''        """Setup widget layout"""\<newline>'' @
      ''        self.main_frame.pack(fill='both', expand=True)\<newline>'' @
      ''\<newline>'' @
      ''        # Display layout\<newline>'' @
      ''        self.display_frame.pack(fill='x', pady=(0, 10))\<newline>'' @
      ''        self.expr_display.pack(fill='x')\<newline>'' @
      ''        self.display.pack(fill='x', ipady=10)\<newline>'' @
      ''\<newline>'' @
      ''        # Button layout\<newline>'' @
      ''        self.button_frame.pack(fill='both', expand=True)\<newline>'' @
      ''\<newline>'' @
      ''        # Layout buttons in grid''\<close>

definition gui_event_handlers :: string where
  \<open>gui_event_handlers =
      ''\<newline>'' @
      ''\<newline>'' @
      ''    def setup_bindings(self):\<newline>'' @
      ''        """Setup keyboard bindings"""\<newline>'' @
      ''        self.root.bind('<Key>', self.on_key_press)\<newline>'' @
      ''        self.root.focus_set()\<newline>'' @
      ''\<newline>'' @
      ''    def on_key_press(self, event):\<newline>'' @
      ''        """Handle keyboard input"""\<newline>'' @
      ''        key = event.char\<newline>'' @
      ''        if key.isdigit():\<newline>'' @
      ''            self.append_number(key)\<newline>'' @
      ''        elif key in '+-*/':\<newline>'' @
      ''            self.append_operator(key)\<newline>'' @
      ''        elif key == '.':\<newline>'' @
      ''            self.append_number('.')\<newline>'' @
      ''        elif key == '' @ [CHR 0x27, CHR 0x5C] @ ''r' or key == '=':\<newline>'' @
      ''            self.calculate()\<newline>'' @
      ''        elif key.lower() == 'c':\<newline>'' @
      ''            self.clear()\<newline>'' @
      ''        elif event.keysym == 'BackSpace':\<newline>'' @
      ''            self.backspace()\<newline>'' @
      ''\<newline>'' @
      ''    def append_number(self, number):\<newline>'' @
      ''        """Add number to current expression"""\<newline>'' @
      ''        if self.result_shown:\<newline>'' @
      ''            self.current_expression = ""\<newline>'' @
      ''            self.result_shown = False\<newline>'' @
      ''\<newline>'' @
      ''        if number == '.' and '.' in self.current_expression.split()[-1]:\<newline>'' @
      ''            return  # Don't allow multiple decimal points\<newline>'' @
      ''\<newline>'' @
      ''        self.current_expression += number\<newline>'' @
      ''        self.update_display()\<newline>'' @
      ''\<newline>'' @
      ''    def append_operator(self, operator):\<newline>'' @
      ''        """Add operator to current expression"""\<newline>'' @
      ''        if self.result_shown:\<newline>'' @
      ''            self.result_shown = False\<newline>'' @
      ''\<newline>'' @
      ''        if self.current_expression and self.current_expression[-1] in '+-*/':\<newline>'' @
      ''            self.current_expression = self.current_expression[:-1]\<newline>'' @
      ''\<newline>'' @
      ''        self.current_expression += operator\<newline>'' @
      ''        self.update_display()\<newline>'' @
      ''\<newline>'' @
      ''    def append_function(self, function):\<newline>'' @
      ''        """Add function to current expression"""\<newline>'' @
      ''        if self.result_shown:\<newline>'' @
      ''            self.current_expression = ""\<newline>'' @
      ''            self.result_shown = False\<newline>'' @
      ''\<newline>'' @
      ''        self.current_expression += function + "("\<newline>'' @
      ''        self.update_display()\<newline>'' @
      ''\<newline>'' @
      ''    def calculate(self):\<newline>'' @
      ''        """Perform calculation"""\<newline>'' @
      ''        try:\<newline>'' @
      ''            if not self.current_expression:\<newline>'' @
      ''                return\<newline>'' @
      ''\<newline>'' @
      ''            # Handle angle units for trig functions\<newline>'' @
      ''            expression = self.current_expression''\<close>

definition gui_trig_degrees :: string where
  \<open>gui_trig_degrees =
      ''\<newline>'' @
      ''            if self.angle_unit == "degrees":\<newline>'' @
      ''                # Convert degrees to radians for trig functions\<newline>'' @
      ''                import re\<newline>'' @
      ''                trig_functions = ['sin', 'cos', 'tan']\<newline>'' @
      ''                for func in trig_functions:\<newline>'' @
      ''                    pattern = f'{func}'' @ [CHR 0x5C, CHR 0x5C] @ ''(([^)]+)'' @ [CHR 0x5C, CHR 0x5C] @ '')'' @ [CHR 0x27] @ ''\<newline>'' @
      ''                    def replace_trig(match):\<newline>'' @
      ''                        angle = match.group(1)\<newline>'' @
      ''                        return f'{func}(math.radians({angle}))'' @ [CHR 0x27] @ ''\<newline>'' @
      ''                    expression = re.sub(pattern, replace_trig, expression)''\<close>

definition gui_calculate_body :: string where
  \<open>gui_calculate_body =
      ''\<newline>'' @
      ''\<newline>'' @
      ''            result = safe_eval(expression)\<newline>'' @
      ''            formatted_result = self.format_result(result)\<newline>'' @
      ''\<newline>'' @
      ''            # Update display\<newline>'' @
      ''            self.display_var.set(str(formatted_result))\<newline>'' @
      ''            self.expr_var.set(f"{self.current_expression} =")\<newline>'' @
      ''\<newline>'' @
      ''            # Add to history''\<close>

definition gui_history_add :: string where
  \<open>gui_history_add =
      ''\<newline>'' @
      ''            self.history.add_entry(self.current_expression, formatted_result)''\<close>

definition gui_calculate_tail :: string where
  \<open>gui_calculate_tail =
      ''\<newline>'' @
      ''\<newline>'' @
      ''            # Set up for next calculation\<newline>'' @
      ''            self.current_expression = str(formatted_result)\<newline>'' @
      ''            self.result_shown = True\<newline>'' @
      ''\<newline>'' @
      ''        except Exception as e:\<newline>'' @
      ''            self.display_var.set("Error")\<newline>'' @
      ''            self.expr_var.set(str(e))\<newline>'' @
      ''            self.current_expression = ""\<newline>'' @
      ''\<newline>'' @
      ''    def format_result(self, result):\<newline>'' @
      ''        """Format calculation result"""\<newline>'' @
      ''        if isinstance(result, (int, float)):\<newline>'' @
      ''            if result == int(result):\<newline>'' @
      ''                return int(result)\<newline>'' @
      ''            else:\<newline>'' @
      ''                return round(result, self.precision)\<newline>'' @
      ''        return result\<newline>'' @
      ''\<newline>'' @
      ''    def clear(self):\<newline>'' @
      ''        """Clear everything"""\<newline>'' @
      ''        self.current_expression = ""\<newline>'' @
      ''        self.display_var.set("0")\<newline>'' @
      ''        self.expr_var.set("")\<newline>'' @
      ''        self.result_shown = False\<newline>'' @
      ''\<newline>'' @
      ''    def clear_entry(self):\<newline>'' @
      ''        """Clear current entry"""\<newline>'' @
      ''        self.current_expression = ""\<newline>'' @
      ''        self.display_var.set("0")\<newline>'' @
      ''        self.update_display()\<newline>'' @
      ''\<newline>'' @
      ''    def backspace(self):\<newline>'' @
      ''        """Remove last character"""\<newline>'' @
      ''        if self.current_expression:\<newline>'' @
      ''            self.current_expression = self.current_expression[:-1]\<newline>'' @
      ''            self.update_display()\<newline>'' @
      ''\<newline>'' @
      ''    def update_display(self):\<newline>'' @
      ''        """Update the display"""\<newline>'' @
      ''        if self.current_expression:\<newline>'' @
      ''            self.display_var.set(self.current_expression)\<newline>'' @
      ''        else:\<newline>'' @
      ''            self.display_var.set("0")''\<close>

definition gui_memory_methods :: string where
  \<open>gui_memory_methods =
      ''\<newline>'' @
      ''\<newline>'' @
      ''    def memory_store(self):\<newline>'' @
      ''        """Store current value in memory"""\<newline>'' @
      ''        try:\<newline>'' @
      ''            current_value = float(self.display_var.get())\<newline>'' @
      ''            self.memory.store(current_value)\<newline>'' @
      ''            messagebox.showinfo("Memory", f"Stored {current_value} in memory")\<newline>'' @
      ''        except ValueError:\<newline>'' @
      ''            messagebox.showerror("Error", "Invalid value to store")\<newline>'' @
      ''\<newline>'' @
      ''    def memory_recall(self):\<newline>'' @
      ''        """Recall value from memory"""\<newline>'' @
      ''        value = self.memory.recall()\<newline>'' @
      ''        self.current_expression = str(value)\<newline>'' @
      ''        self.display_var.set(str(value))\<newline>'' @
      ''        self.result_shown = True\<newline>'' @
      ''\<newline>'' @
      ''    def memory_clear(self):\<newline>'' @
      ''        """Clear memory"""\<newline>'' @
      ''        self.memory.clear()\<newline>'' @
      ''        messagebox.showinfo("Memory", "Memory cleared")''\<close>

definition gui_create_menu :: string where
  \<open>gui_create_menu =
      ''\<newline>'' @
      ''\<newline>'' @
      ''    def create_menu(self):\<newline>'' @
      ''        """Create application menu"""\<newline>'' @
      ''        menubar = tk.Menu(self.root)\<newline>'' @
      ''        self.root.config(menu=menubar)\<newline>'' @
      ''\<newline>'' @
      ''        # Tools menu\<newline>'' @
      ''        tools_menu = tk.Menu(menubar, tearoff=0)\<newline>'' @
      ''        menubar.add_cascade(label="Tools", menu=tools_menu)''\<close>

definition gui_menu_statistics :: string where
  \<open>gui_menu_statistics =
      ''\<newline>'' @
      ''        tools_menu.add_command(label="Statistics Calculator", command=self.show_stats_dialog)''\<close>

definition gui_menu_history :: string where
  \<open>gui_menu_history =
      ''\<newline>'' @
      ''        tools_menu.add_command(label="Show History", command=self.show_history)\<newline>'' @
      ''        tools_menu.add_command(label="Clear History", command=self.clear_history)''\<close>

definition gui_menu_about :: string where
  \<open>gui_menu_about =
      ''\<newline>'' @
      ''        tools_menu.add_separator()\<newline>'' @
      ''        tools_menu.add_command(label="About", command=self.show_about)''\<close>

definition gui_stats_dialog :: string where
  \<open>gui_stats_dialog =
      ''\<newline>'' @
      ''\<newline>'' @
      ''    def show_stats_dialog(self):\<newline>'' @
      ''        """Show statistics calculator dialog"""\<newline>'' @
      ''        data_str = simpledialog.askstring(\<newline>'' @
      ''            "Statistics",\<newline>'' @
      ''            "Enter comma-separated numbers:"\<newline>'' @
      ''        )\<newline>'' @
      ''        if data_str:\<newline>'' @
      ''            try:\<newline>'' @
      ''                stats = calculate_stats(data_str)\<newline>'' @
      ''                result = "'' @ [CHR 0x5C, CHR 0x5C] @ ''n".join([f"{k.title()}: {v}" for k, v in stats.items()])\<newline>'' @
      ''                messagebox.showinfo("Statistics Results", result)\<newline>'' @
      ''            except Exception as e:\<newline>'' @
      ''                messagebox.showerror("Error", str(e))''\<close>

definition gui_history_methods :: string where
  \<open>gui_history_methods =
      ''\<newline>'' @
      ''\<newline>'' @
      ''    def show_history(self):\<newline>'' @
      ''        """Show calculation history"""\<newline>'' @
      ''        history = self.history.get_history()\<newline>'' @
      ''        if not history:\<newline>'' @
      ''            messagebox.showinfo("History", "No calculations in history")\<newline>'' @
      ''            return\<newline>'' @
      ''\<newline>'' @
      ''        # Create history window\<newline>'' @
      ''        hist_window = tk.Toplevel(self.root)\<newline>'' @
      ''        hist_window.title("Calculation History")\<newline>'' @
      ''        hist_window.geometry("400x300")\<newline>'' @
      ''\<newline>'' @
      ''        # Create text widget with scrollbar\<newline>'' @
      ''        text_frame = ttk.Frame(hist_window)\<newline>'' @
      ''        text_frame.pack(fill='both', expand=True, padding=10)\<newline>'' @
      ''\<newline>'' @
      ''        text_widget = tk.Text(text_frame, wrap='word')\<newline>'' @
      ''        scrollbar = ttk.Scrollbar(text_frame, orient='vertical', command=text_widget.yview)\<newline>'' @
      ''        text_widget.configure(yscrollcommand=scrollbar.set)\<newline>'' @
      ''\<newline>'' @
      ''        # Add history entries\<newline>'' @
      ''        for entry in history:\<newline>'' @
      ''            text_widget.insert('end', f"{entry['timestamp']}: {entry['expression']} = {entry['result']}'' @ [CHR 0x5C, CHR 0x5C] @ ''n")\<newline>'' @
      ''\<newline>'' @
      ''        text_widget.config(state='disabled')\<newline>'' @
      ''        text_widget.pack(side='left', fill='both', expand=True)\<newline>'' @
      ''        scrollbar.pack(side='right', fill='y')\<newline>'' @
      ''\<newline>'' @
      ''    def clear_history(self):\<newline>'' @
      ''        """Clear calculation history"""\<newline>'' @
      ''        self.history.clear()\<newline>'' @
      ''        messagebox.showinfo("History", "History cleared")''\<close>

definition gui_apply_theme :: string where
  \<open>gui_apply_theme =
      ''\<newline>'' @
      ''\<newline>'' @
      ''    def apply_theme(self):\<newline>'' @
      ''        """Apply visual theme"""\<newline>'' @
      ''        # Configure styles based on theme setting\<newline>'' @
      ''        style = ttk.Style()''\<close>

definition gui_theme_dark :: string where
  \<open>gui_theme_dark =
      ''\<newline>'' @
      ''        # Dark theme\<newline>'' @
      ''        self.root.configure(bg='#2b2b2b')\<newline>'' @
      ''        style.configure('TFrame', background='#2b2b2b')\<newline>'' @
      ''        style.configure('TButton', background='#404040', foreground='white')\<newline>'' @
      ''        style.configure('TLabel', background='#2b2b2b', foreground='white')''\<close>

definition gui_theme_light :: string where
  \<open>gui_theme_light =
      ''\<newline>'' @
      ''        # Light theme (default)\<newline>'' @
      ''        style.configure('TButton', padding=5)''\<close>

definition gui_about_head :: string where
  \<open>gui_about_head =
      ''\<newline>'' @
      ''\<newline>'' @
      ''    def show_about(self):\<newline>'' @
      ''        """Show about dialog"""\<newline>'' @
      ''        about_text = f"""''\<close>

definition gui_about_version :: string where
  \<open>gui_about_version =
      ''\<newline>'' @
      ''Version: 1.0.0\<newline>'' @
      ''Author: ''\<close>

definition gui_about_tail :: string where
  \<open>gui_about_tail =
      ''\<newline>'' @
      ''\<newline>'' @
      ''Generated by Calculator Generator"""\<newline>'' @
      ''        messagebox.showinfo("About", about_text)\<newline>'' @
      ''\<newline>'' @
      ''    def run(self):\<newline>'' @
      ''        """Start the calculator application"""\<newline>'' @
      ''        self.root.mainloop()\<newline>'' @
      ''\<newline>'' @
      ''def main():\<newline>'' @
      ''    """Main application entry point"""\<newline>'' @
      ''    calculator = CalculatorGUI()\<newline>'' @
      ''    calculator.run()\<newline>'' @
      ''\<newline>'' @
      ''if __name__ == "__main__":\<newline>'' @
      ''    main()''\<close>

definition generateGUIMainContent :: "CalculatorConfig \<Rightarrow> string" where
  \<open>generateGUIMainContent g =
    gui_class_head @ ProjectName g @ gui_window_state @ AngleUnit (UI g) @ gui_precision @
    Sprintf_d (Precision (UI g)) @ gui_state_end @
    (if Memory (Features g) then ''        self.memory = MemoryManager()\<newline>'' else '''') @
    (if History (Features g) then ''        self.history = HistoryManager()\<newline>'' else '''') @
    gui_setup_and_widgets @
    (if Memory (Features g) \<or> History (Features g) \<or> Statistical (Features g) then
       gui_call_create_menu else '''') @
    gui_create_buttons @
    (if Trigonometric (Features g) then gui_trig_buttons else '''') @
    (if Logarithmic (Features g) then gui_log_buttons else '''') @
    (if Memory (Features g) then gui_mem_buttons else '''') @
    gui_setup_layout @
    (if Type g = ScientificCalculator then generateScientificLayout g
     else generateBasicLayout g) @
    gui_event_handlers @
    (if Trigonometric (Features g) then gui_trig_degrees else '''') @
    gui_calculate_body @
    (if History (Features g) then gui_history_add else '''') @
    gui_calculate_tail @
    (if Memory (Features g) then gui_memory_methods else '''') @
    (if Memory (Features g) \<or> History (Features g) \<or> Statistical (Features g) then
       gui_create_menu @
       (if Statistical (Features g) then gui_menu_statistics else '''') @
       (if History (Features g) then gui_menu_history else '''') @
       gui_menu_about
     else '''') @
    (if Statistical (Features g) then gui_stats_dialog else '''') @
    (if History (Features g) then gui_history_methods else '''') @
    gui_apply_theme @
    (if Theme (UI g) = ''dark'' then gui_theme_dark else gui_theme_light) @
    gui_about_head @ ProjectName g @ gui_about_version @ Author g @
      ''\<newline>'' @
      ''\<newline>'' @
    Description g @ gui_about_tail\<close>

text \<open>\<^verbatim>\<open>prepareGUITemplateData\<close> sets no \<^verbatim>\<open>Timestamp\<close>: the field keeps Go's zero
  value, the empty string.\<close>

definition prepareGUITemplateData :: "CalculatorConfig \<Rightarrow> TemplateData" where
  "prepareGUITemplateData g =
    (let imports = generateGUIImports g;
         functions = generateGUIFunctions g;
         mainContent = generateGUIMainContent g
     in \<lparr> Config = g, Imports = imports, Functions = functions, MainContent = mainContent,
          Version = ''1.0.0'', Timestamp = '''' \<rparr>)"

definition renderGUITemplate :: "TemplateData \<Rightarrow> error + string" where
  \<open>renderGUITemplate data = Inr (
      ''#!/usr/bin/env python3\<newline>'' @
      ''"""\<newline>'' @
    ProjectName (Config data) @
      ''\<newline>'' @
    Description (Config data) @
      ''\<newline>'' @
      ''\<newline>'' @
      ''Generated by Calculator Generator\<newline>'' @
      ''Author: '' @
    Author (Config data) @
      ''\<newline>'' @
      ''Version: '' @
    Version data @
      ''\<newline>'' @
      ''Generated: '' @
    Timestamp data @
      ''\<newline>'' @
      ''"""\<newline>'' @
      ''\<newline>'' @
    concat (map (\<lambda>i. i @
      ''\<newline>'') (Imports data)) @
      ''\<newline>'' @
      ''\<newline>'' @
    concat (map (\<lambda>f.
      ''\<newline>'' @ f @
      ''\<newline>'' @
      ''\<newline>'') (Functions data)) @
      ''\<newline>'' @
      ''\<newline>'' @
    MainContent data @
      ''\<newline>'')\<close>

definition GenerateGUICalculator :: "CalculatorConfig \<Rightarrow> error + string" where
  "GenerateGUICalculator g = (let data = prepareGUITemplateData g in renderGUITemplate data)"

section \<open>Writing the artifacts\<close>

text \<open>File modes are the numbers of the source: octal 0755 is 493 and octal 0644 is 420.\<close>

definition writeToFile :: "host \<Rightarrow> CalculatorConfig \<Rightarrow> string \<Rightarrow> io_op list \<Rightarrow> io_op list \<times> error option" where
  "writeToFile h g content tr =
    (let dir = filepath_Dir h (OutputFile g) in
     case (if dir \<noteq> '''' \<and> dir \<noteq> ''.'' then perform h (MkdirAll dir 493) tr else (tr, None)) of
       (tr1, Some err) \<Rightarrow> (tr1, Some err)
     | (tr1, None) \<Rightarrow> perform h (WriteFile (OutputFile g) content 493) tr1)"

definition generateRequirements :: "host \<Rightarrow> CalculatorConfig \<Rightarrow> io_op list \<Rightarrow> io_op list \<times> error option" where
  "generateRequirements h g tr =
    (let requirements =
           (if UseNumpy (Libraries g) then [''numpy>=1.21.0''] else []) @
           (if UsePandas (Libraries g) then [''pandas>=1.3.0''] else []) @
           (if UseScipy (Libraries g) then [''scipy>=1.7.0''] else []) @
           (if UseSympy (Libraries g) then [''sympy>=1.9.0''] else []) @
           (if UsePlotly (Libraries g) \<or> Plotting (Features g) then [''plotly>=5.0.0''] else []) @
           (if Style (UI g) = ''gui'' then [''# tkinter (included with Python)''] else [])
     in if length requirements = 0 then (tr, None)
        else
          (let dir = filepath_Dir h (OutputFile g);
               requirementsPath = filepath_Join h dir ''requirements.txt'';
               content = strings_Join requirements ''\<newline>'' @ ''\<newline>''
           in perform h (WriteFile requirementsPath content 420) tr))"

definition Generate :: "host \<Rightarrow> CalculatorConfig \<Rightarrow> io_op list \<Rightarrow> io_op list \<times> error option" where
  "Generate h g tr =
    (case validateConfig g of
       Some err \<Rightarrow> (tr, Some (Wrapf ''configuration validation failed: %w'' err))
     | None \<Rightarrow>
        (let data = prepareTemplateData h g in
         case (if Style (UI g) = ''gui'' then GenerateGUICalculator g else renderTemplate data) of
           Inl err \<Rightarrow> (tr, Some (Wrapf ''template rendering failed: %w'' err))
         | Inr content \<Rightarrow>
            (case writeToFile h g content tr of
               (tr1, Some err) \<Rightarrow> (tr1, Some (Wrapf ''file writing failed: %w'' err))
             | (tr1, None) \<Rightarrow>
                (case generateRequirements h g tr1 of
                   (tr2, Some err) \<Rightarrow> (tr2, Some (Wrapf ''requirements generation failed: %w'' err))
                 | (tr2, None) \<Rightarrow> (tr2, None)))))"

section \<open>The \<^verbatim>\<open>generate\<close> command\<close>

text \<open>
  The command reads its settings from viper by key. The record has one field per key the
  command reads; \<open>default_flags\<close> holds the defaults that \<^verbatim>\<open>init\<close> registers for
  them.
\<close>

record viper =
  flag_type :: string
  flag_name :: string
  flag_description :: string
  flag_libraries :: string
  flag_math :: bool
  flag_features :: string
  flag_memory :: bool
  flag_history :: bool
  flag_interactive :: bool
  flag_style :: string
  flag_theme :: string
  flag_precision :: int
  flag_angle_unit :: string
  flag_show_help :: bool
  flag_show_banner :: bool
  flag_output :: string
  flag_author :: string

definition default_flags :: viper where
  "default_flags =
    \<lparr> flag_type = ''basic'', flag_name = ''Python Calculator'', flag_description = '''',
      flag_libraries = '''', flag_math = True, flag_features = '''', flag_memory = False,
      flag_history = False, flag_interactive = True, flag_style = ''cli'',
      flag_theme = ''light'', flag_precision = 10, flag_angle_unit = ''degrees'',
      flag_show_help = True, flag_show_banner = True, flag_output = ''calculator.py'',
      flag_author = ''Calculator Generator'' \<rparr>"

definition buildConfigFromFlags :: "viper \<Rightarrow> CalculatorConfig" where
  "buildConfigFromFlags v =
    (let config = GetDefaultConfig;
         config = config\<lparr>ProjectName := flag_name v\<rparr>;
         config = config\<lparr>Author := flag_author v\<rparr>;
         config = config\<lparr>OutputFile := flag_output v\<rparr>;
         description = flag_description v;
         description =
           (if description = '''' then
              (if flag_type v = ''scientific''
               then ''A scientific calculator with advanced mathematical functions''
               else ''A basic calculator with essential arithmetic operations'')
            else description);
         config = config\<lparr>Description := description\<rparr>;
         config = config\<lparr>Interactive := flag_interactive v\<rparr>;
         config = config\<lparr>Libraries := (Libraries config)\<lparr>UseMath := flag_math v\<rparr>\<rparr>;
         config = config\<lparr>Features := (Features config)\<lparr>Memory := flag_memory v\<rparr>\<rparr>;
         config = config\<lparr>Features := (Features config)\<lparr>History := flag_history v\<rparr>\<rparr>;
         config = config\<lparr>UI := (UI config)\<lparr>Style := flag_style v\<rparr>\<rparr>;
         config = config\<lparr>UI := (UI config)\<lparr>Theme := flag_theme v\<rparr>\<rparr>;
         config = config\<lparr>UI := (UI config)\<lparr>Precision := flag_precision v\<rparr>\<rparr>;
         config = config\<lparr>UI := (UI config)\<lparr>AngleUnit := flag_angle_unit v\<rparr>\<rparr>;
         config = config\<lparr>UI := (UI config)\<lparr>ShowHelp := flag_show_help v\<rparr>\<rparr>;
         config = config\<lparr>UI := (UI config)\<lparr>ShowBanner := flag_show_banner v\<rparr>\<rparr>
     in config)"

text \<open>
  The string functions of the standard library that the command uses, on bytes.
  \<^verbatim>\<open>strings.Split(s, ",")\<close> cuts at every comma and keeps empty pieces.
  \<^verbatim>\<open>strings.ToLower\<close> and \<^verbatim>\<open>strings.TrimSpace\<close> are modelled on ASCII: the
  letters \<open>A\<close> to \<open>Z\<close> are lowered, and tab, line feed, vertical tab, form feed,
  carriage return and space are trimmed; bytes from 128 on are left as they are.
\<close>

fun strings_Split :: "string \<Rightarrow> char \<Rightarrow> string list" where
  "strings_Split [] sep = [[]]"
| "strings_Split (c # cs) sep =
    (if c = sep then [] # strings_Split cs sep
     else (case strings_Split cs sep of
             [] \<Rightarrow> [[c]]
           | w # ws \<Rightarrow> (c # w) # ws))"

definition strings_ToLower :: "string \<Rightarrow> string" where
  "strings_ToLower s =
    map (\<lambda>c. let n = (of_char c :: nat) in if 65 \<le> n \<and> n \<le> 90 then char_of (n + 32) else c) s"

definition isSpace :: "char \<Rightarrow> bool" where
  "isSpace c = ((of_char c :: nat) \<in> {9, 10, 11, 12, 13, 32})"

definition strings_TrimSpace :: "string \<Rightarrow> string" where
  "strings_TrimSpace s = rev (dropWhile isSpace (rev (dropWhile isSpace s)))"

text \<open>
  The body of the \<^verbatim>\<open>switch\<close> in \<^verbatim>\<open>applyLibrariesFromFlags\<close>, on one trimmed and
  lowered name: the configuration with the flag set, or \<open>None\<close> in the default case.
\<close>

definition library_case :: "string \<Rightarrow> CalculatorConfig \<Rightarrow> CalculatorConfig option" where
  "library_case lib config =
    (if lib = ''numpy'' then Some (config\<lparr>Libraries := (Libraries config)\<lparr>UseNumpy := True\<rparr>\<rparr>)
     else if lib = ''pandas'' then Some (config\<lparr>Libraries := (Libraries config)\<lparr>UsePandas := True\<rparr>\<rparr>)
     else if lib = ''scipy'' then Some (config\<lparr>Libraries := (Libraries config)\<lparr>UseScipy := True\<rparr>\<rparr>)
     else if lib = ''sympy'' then Some (config\<lparr>Libraries := (Libraries config)\<lparr>UseSympy := True\<rparr>\<rparr>)
     else if lib = ''plotly'' then Some (config\<lparr>Libraries := (Libraries config)\<lparr>UsePlotly := True\<rparr>\<rparr>)
     else if lib = ''math'' then Some (config\<lparr>Libraries := (Libraries config)\<lparr>UseMath := True\<rparr>\<rparr>)
     else None)"

text \<open>
  The \<^verbatim>\<open>for\<close> statement over the names. The Go function updates the configuration
  through a pointer, so the flags set before an unknown name stay set when it returns
  the error: the model returns the configuration together with the error.
\<close>

fun applyLibraries_range :: "string list \<Rightarrow> CalculatorConfig \<Rightarrow> CalculatorConfig \<times> error option" where
  "applyLibraries_range [] config = (config, None)"
| "applyLibraries_range (lib # libraries) config =
    (let lib = strings_TrimSpace (strings_ToLower lib) in
     case library_case lib config of
       None \<Rightarrow> (config, Some (Errorf ''unknown library: %s'' lib))
     | Some config' \<Rightarrow> applyLibraries_range libraries config')"

definition applyLibrariesFromFlags :: "viper \<Rightarrow> CalculatorConfig \<Rightarrow> CalculatorConfig \<times> error option" where
  "applyLibrariesFromFlags v config =
    (let librariesStr = flag_libraries v in
     if librariesStr = '''' then (config, None)
     else applyLibraries_range (strings_Split librariesStr CHR '','') config)"

definition feature_case :: "string \<Rightarrow> CalculatorConfig \<Rightarrow> CalculatorConfig option" where
  "feature_case feature config =
    (if feature = ''basic-arithmetic'' \<or> feature = ''arithmetic'' then
       Some (config\<lparr>Features := (Features config)\<lparr>BasicArithmetic := True\<rparr>\<rparr>)
     else if feature = ''trigonometric'' \<or> feature = ''trig'' then
       Some (config\<lparr>Features := (Features config)\<lparr>Trigonometric := True\<rparr>,
                    Libraries := (Libraries config)\<lparr>UseMath := True\<rparr>\<rparr>)
     else if feature = ''logarithmic'' \<or> feature = ''log'' then
       Some (config\<lparr>Features := (Features config)\<lparr>Logarithmic := True\<rparr>,
                    Libraries := (Libraries config)\<lparr>UseMath := True\<rparr>\<rparr>)
     else if feature = ''exponential'' \<or> feature = ''exp'' then
       Some (config\<lparr>Features := (Features config)\<lparr>Exponential := True\<rparr>,
                    Libraries := (Libraries config)\<lparr>UseMath := True\<rparr>\<rparr>)
     else if feature = ''statistical'' \<or> feature = ''stats'' then
       Some (config\<lparr>Features := (Features config)\<lparr>Statistical := True\<rparr>,
                    Libraries := (Libraries config)\<lparr>UseNumpy := True\<rparr>\<rparr>)
     else if feature = ''linear-algebra'' \<or> feature = ''linalg'' then
       Some (config\<lparr>Features := (Features config)\<lparr>LinearAlgebra := True\<rparr>,
                    Libraries := (Libraries config)\<lparr>UseNumpy := True\<rparr>\<rparr>)
     else if feature = ''calculus'' then
       Some (config\<lparr>Features := (Features config)\<lparr>Calculus := True\<rparr>,
                    Libraries := (Libraries config)\<lparr>UseSympy := True\<rparr>\<rparr>)
     else if feature = ''plotting'' \<or> feature = ''plot'' then
       Some (config\<lparr>Features := (Features config)\<lparr>Plotting := True\<rparr>,
                    Libraries := (Libraries config)\<lparr>UsePlotly := True\<rparr>\<rparr>)
     else if feature = ''unit-conversion'' \<or> feature = ''units'' then
       Some (config\<lparr>Features := (Features config)\<lparr>UnitConversion := True\<rparr>\<rparr>)
     else if feature = ''complex-numbers'' \<or> feature = ''complex'' then
       Some (config\<lparr>Features := (Features config)\<lparr>ComplexNumbers := True\<rparr>\<rparr>)
     else if feature = ''equation-solver'' \<or> feature = ''solver'' then
       Some (config\<lparr>Features := (Features config)\<lparr>EquationSolver := True\<rparr>,
                    Libraries := (Libraries config)\<lparr>UseSympy := True\<rparr>\<rparr>)
     else if feature = ''matrix-operations'' \<or> feature = ''matrix'' then
       Some (config\<lparr>Features := (Features config)\<lparr>MatrixOperations := True\<rparr>,
                    Libraries := (Libraries config)\<lparr>UseNumpy := True\<rparr>\<rparr>)
     else if feature = ''data-analysis'' \<or> feature = ''data'' then
       Some (config\<lparr>Features := (Features config)\<lparr>DataAnalysis := True\<rparr>,
                    Libraries := (Libraries config)\<lparr>UsePandas := True, UseNumpy := True\<rparr>\<rparr>)
     else if feature = ''graphing'' \<or> feature = ''graph'' then
       Some (config\<lparr>Features := (Features config)\<lparr>Graphing := True\<rparr>,
                    Libraries := (Libraries config)\<lparr>UsePlotly := True\<rparr>\<rparr>)
     else if feature = ''programming'' \<or> feature = ''prog'' then
       Some (config\<lparr>Features := (Features config)\<lparr>Programming := True\<rparr>\<rparr>)
     else if feature = ''memory'' \<or> feature = ''mem'' then
       Some (config\<lparr>Features := (Features config)\<lparr>Memory := True\<rparr>\<rparr>)
     else if feature = ''history'' \<or> feature = ''hist'' then
       Some (config\<lparr>Features := (Features config)\<lparr>History := True\<rparr>\<rparr>)
     else None)"

fun applyFeatures_range :: "string list \<Rightarrow> CalculatorConfig \<Rightarrow> CalculatorConfig \<times> error option" where
  "applyFeatures_range [] config = (config, None)"
| "applyFeatures_range (feature # features) config =
    (let feature = strings_TrimSpace (strings_ToLower feature) in
     case feature_case feature config of
       None \<Rightarrow> (config, Some (Errorf ''unknown feature: %s'' feature))
     | Some config' \<Rightarrow> applyFeatures_range features config')"

definition applyFeaturesFromFlags :: "viper \<Rightarrow> CalculatorConfig \<Rightarrow> CalculatorConfig \<times> error option" where
  "applyFeaturesFromFlags v config =
    (let featuresStr = flag_features v in
     if featuresStr = '''' then (config, None)
     else applyFeatures_range (strings_Split featuresStr CHR '','') config)"

text \<open>
  \<^verbatim>\<open>runGenerate\<close> up to the call of the generator: the configuration it builds from
  the settings, or the error it returns. The package-level \<^verbatim>\<open>config\<close> that
  \<^verbatim>\<open>getConfigFromFlags\<close> updates is hidden by the local variable of the same name and
  is never read.
\<close>

definition runGenerate_config :: "viper \<Rightarrow> error + CalculatorConfig" where
  "runGenerate_config v =
    (let config = buildConfigFromFlags v;
         calcType = flag_type v
     in case (if calcType = ''basic'' then Inr (config\<lparr>Type := BasicCalculator\<rparr>)
              else if calcType = ''scientific'' then
                (let config = GetScientificConfig;
                     config = buildConfigFromFlags v
                 in Inr (config\<lparr>Type := ScientificCalculator\<rparr>))
              else Inl (Errorf ''invalid calculator type: %s (must be 'basic' or 'scientific')'' calcType)) of
          Inl err \<Rightarrow> Inl err
        | Inr config \<Rightarrow>
           (case applyLibrariesFromFlags v config of
              (config, Some err) \<Rightarrow> Inl err
            | (config, None) \<Rightarrow>
               (case applyFeaturesFromFlags v config of
                  (config, Some err) \<Rightarrow> Inl err
                | (config, None) \<Rightarrow> Inr config)))"

text \<open>The messages that \<^verbatim>\<open>runGenerate\<close> prints after a successful run are left out.\<close>

definition runGenerate :: "host \<Rightarrow> viper \<Rightarrow> io_op list \<Rightarrow> io_op list \<times> error option" where
  "runGenerate h v tr =
    (case runGenerate_config v of
       Inl err \<Rightarrow> (tr, Some err)
     | Inr config \<Rightarrow>
        (case Generate h config tr of
           (tr', Some err) \<Rightarrow> (tr', Some (Wrapf ''generation failed: %w'' err))
         | (tr', None) \<Rightarrow> (tr', None)))"

definition hasExternalLibraries :: "CalculatorConfig \<Rightarrow> bool" where
  "hasExternalLibraries config =
    (UseNumpy (Libraries config) \<or> UsePandas (Libraries config) \<or> UseScipy (Libraries config) \<or>
     UseSympy (Libraries config) \<or> UsePlotly (Libraries config))"

section \<open>Resolution of selections: what the claims speak of\<close>

text \<open>
  The flags of the two selections, as lists of the record fields, and the relation
  between a configuration and a later one that says that every flag that was on is
  still on and that nothing but flags has changed.
\<close>

definition library_flags :: "(Libraries \<Rightarrow> bool) list" where
  "library_flags = [UseNumpy, UsePandas, UseScipy, UseMath, UseSympy, UsePlotly]"

definition feature_flags :: "(Features \<Rightarrow> bool) list" where
  "feature_flags =
    [BasicArithmetic, History, Memory, Trigonometric, Logarithmic, Exponential, Statistical,
     LinearAlgebra, Calculus, Plotting, UnitConversion, ComplexNumbers, EquationSolver,
     MatrixOperations, DataAnalysis, Graphing, Programming]"

definition only_adds_flags :: "CalculatorConfig \<Rightarrow> CalculatorConfig \<Rightarrow> bool" where
  "only_adds_flags c d =
    (Type d = Type c \<and> OutputFile d = OutputFile c \<and> ProjectName d = ProjectName c \<and>
     Author d = Author c \<and> Description d = Description c \<and> Interactive d = Interactive c \<and>
     UI d = UI c \<and>
     (\<forall>f \<in> set library_flags. f (Libraries c) \<longrightarrow> f (Libraries d)) \<and>
     (\<forall>f \<in> set feature_flags. f (Features c) \<longrightarrow> f (Features d)))"

text \<open>
  The two steps of \<^verbatim>\<open>runGenerate\<close> that apply the selections, in its order: the
  libraries first, and the features only when no library name was unknown.
\<close>

definition resolve :: "viper \<Rightarrow> CalculatorConfig \<Rightarrow> CalculatorConfig \<times> error option" where
  "resolve v config =
    (case applyLibrariesFromFlags v config of
       (config, Some err) \<Rightarrow> (config, Some err)
     | (config, None) \<Rightarrow> applyFeaturesFromFlags v config)"


text \<open>
  The entailment table of the specification: the name of a feature as the
  \<^verbatim>\<open>--features\<close> flag takes it, the flag of the feature, and the flags of the
  libraries it implies.
\<close>

definition entailment_table :: "(string \<times> (Features \<Rightarrow> bool) \<times> (Libraries \<Rightarrow> bool) list) list" where
  "entailment_table =
    [(''trigonometric'', Trigonometric, [UseMath]),
     (''logarithmic'', Logarithmic, [UseMath]),
     (''exponential'', Exponential, [UseMath]),
     (''statistical'', Statistical, [UseNumpy]),
     (''linear-algebra'', LinearAlgebra, [UseNumpy]),
     (''matrix-operations'', MatrixOperations, [UseNumpy]),
     (''data-analysis'', DataAnalysis, [UseNumpy, UsePandas]),
     (''plotting'', Plotting, [UsePlotly]),
     (''graphing'', Graphing, [UsePlotly]),
     (''equation-solver'', EquationSolver, [UseSympy]),
     (''calculus'', Calculus, [UseSympy])]"

text \<open>The names that a selection string holds, trimmed and lowered as the command
  does before it compares them.\<close>

definition selected_names :: "string \<Rightarrow> string list" where
  "selected_names s = map (\<lambda>n. strings_TrimSpace (strings_ToLower n)) (strings_Split s CHR '','')"

text \<open>Settings for the concrete instances.\<close>

definition selection_flags :: viper where
  "selection_flags = default_flags\<lparr>flag_libraries := ''numpy, Pandas'', flag_features := ''stats,Plot''\<rparr>"


definition entailment_flags :: viper where
  "entailment_flags = default_flags\<lparr>flag_features := ''Statistical, data-analysis''\<rparr>"

section \<open>The generated text and the manifest: what the claims speak of\<close>

text \<open>The text that \<open>Generate\<close> hands to \<open>writeToFile\<close>: the desktop program when the
  style is \<^verbatim>\<open>gui\<close>, the command-line program otherwise.\<close>

definition script_text :: "host \<Rightarrow> CalculatorConfig \<Rightarrow> error + string" where
  "script_text h g =
    (if Style (UI g) = ''gui'' then GenerateGUICalculator g else renderTemplate (prepareTemplateData h g))"

text \<open>
  The manifest as the amended claim C2 words it: one line per row of the table whose
  condition holds, in the order of the table, each ended by a line feed; and the path
  it is written to, beside the script.
\<close>

definition manifest_table :: "(string \<times> (CalculatorConfig \<Rightarrow> bool)) list" where
  "manifest_table =
    [(''numpy>=1.21.0'', \<lambda>g. UseNumpy (Libraries g)),
     (''pandas>=1.3.0'', \<lambda>g. UsePandas (Libraries g)),
     (''scipy>=1.7.0'', \<lambda>g. UseScipy (Libraries g)),
     (''sympy>=1.9.0'', \<lambda>g. UseSympy (Libraries g)),
     (''plotly>=5.0.0'', \<lambda>g. UsePlotly (Libraries g) \<or> Plotting (Features g)),
     (''# tkinter (included with Python)'', \<lambda>g. Style (UI g) = ''gui'')]"

definition manifest_lines :: "CalculatorConfig \<Rightarrow> string list" where
  "manifest_lines g = map fst (filter (\<lambda>(l, on). on g) manifest_table)"

definition manifest_path :: "host \<Rightarrow> CalculatorConfig \<Rightarrow> string" where
  "manifest_path h g = filepath_Join h (filepath_Dir h (OutputFile g)) ''requirements.txt''"

section \<open>Inputs for the concrete instances\<close>

text \<open>A host whose clock reads a fixed time, that keeps every file in the current
  directory, and on which no call fails.\<close>

definition quiet_host :: host where
  "quiet_host = \<lparr> Now = ''2024-05-01 12:00:00'', filepath_Dir = (\<lambda>p. ''.''),
     filepath_Join = (\<lambda>d f. d @ ''/'' @ f), io_error = (\<lambda>tr op. None) \<rparr>"

text \<open>The same host one second later.\<close>

definition later_host :: host where
  "later_host = quiet_host\<lparr>Now := ''2024-05-01 12:00:01''\<rparr>"

text \<open>The default configuration with the desktop style, and the settings of
  \<^verbatim>\<open>generate --type scientific\<close>.\<close>

definition gui_config :: CalculatorConfig where
  "gui_config = GetDefaultConfig\<lparr>UI := (UI GetDefaultConfig)\<lparr>Style := ''gui''\<rparr>\<rparr>"

definition scientific_flags :: viper where
  "scientific_flags = default_flags\<lparr>flag_type := ''scientific''\<rparr>"

text \<open>The two configurations of claim C8, the configuration of claim C9, and a
  configuration with the statistical and linear-algebra features but without numpy.\<close>

definition plotly_library_config :: CalculatorConfig where
  "plotly_library_config = GetDefaultConfig\<lparr>Libraries := (Libraries GetDefaultConfig)\<lparr>UsePlotly := True\<rparr>\<rparr>"

definition plotting_feature_config :: CalculatorConfig where
  "plotting_feature_config = GetDefaultConfig\<lparr>Features := (Features GetDefaultConfig)\<lparr>Plotting := True\<rparr>\<rparr>"



section \<open>Resolution only adds flags\<close>

lemma only_adds_refl: "only_adds_flags c c"
  by (simp add: only_adds_flags_def)

lemma only_adds_trans: "only_adds_flags a b \<Longrightarrow> only_adds_flags b c \<Longrightarrow> only_adds_flags a c"
  by (auto simp add: only_adds_flags_def)

lemma library_update_keeps:
  fixes l :: Libraries
  assumes "f \<in> set library_flags" and "f l"
  shows "f (l\<lparr>UseNumpy := True\<rparr>)" and "f (l\<lparr>UsePandas := True\<rparr>)" and "f (l\<lparr>UseScipy := True\<rparr>)"
    and "f (l\<lparr>UseMath := True\<rparr>)" and "f (l\<lparr>UseSympy := True\<rparr>)" and "f (l\<lparr>UsePlotly := True\<rparr>)"
  using assms by (auto simp add: library_flags_def)

lemma library_update_same:
  fixes l :: Libraries
  shows "UseNumpy l \<Longrightarrow> l\<lparr>UseNumpy := True\<rparr> = l"
    and "UsePandas l \<Longrightarrow> l\<lparr>UsePandas := True\<rparr> = l"
    and "UseScipy l \<Longrightarrow> l\<lparr>UseScipy := True\<rparr> = l"
    and "UseMath l \<Longrightarrow> l\<lparr>UseMath := True\<rparr> = l"
    and "UseSympy l \<Longrightarrow> l\<lparr>UseSympy := True\<rparr> = l"
    and "UsePlotly l \<Longrightarrow> l\<lparr>UsePlotly := True\<rparr> = l"
  by (cases l; simp)+

lemma feature_update_keeps:
  fixes l :: Features
  assumes "f \<in> set feature_flags" and "f l"
  shows "f (l\<lparr>BasicArithmetic := True\<rparr>)" and "f (l\<lparr>History := True\<rparr>)"
    and "f (l\<lparr>Memory := True\<rparr>)" and "f (l\<lparr>Trigonometric := True\<rparr>)"
    and "f (l\<lparr>Logarithmic := True\<rparr>)" and "f (l\<lparr>Exponential := True\<rparr>)"
    and "f (l\<lparr>Statistical := True\<rparr>)" and "f (l\<lparr>LinearAlgebra := True\<rparr>)"
    and "f (l\<lparr>Calculus := True\<rparr>)" and "f (l\<lparr>Plotting := True\<rparr>)"
    and "f (l\<lparr>UnitConversion := True\<rparr>)" and "f (l\<lparr>ComplexNumbers := True\<rparr>)"
    and "f (l\<lparr>EquationSolver := True\<rparr>)" and "f (l\<lparr>MatrixOperations := True\<rparr>)"
    and "f (l\<lparr>DataAnalysis := True\<rparr>)" and "f (l\<lparr>Graphing := True\<rparr>)"
    and "f (l\<lparr>Programming := True\<rparr>)"
  using assms by (auto simp add: feature_flags_def)

lemma feature_update_same:
  fixes l :: Features
  shows "BasicArithmetic l \<Longrightarrow> l\<lparr>BasicArithmetic := True\<rparr> = l"
    and "History l \<Longrightarrow> l\<lparr>History := True\<rparr> = l"
    and "Memory l \<Longrightarrow> l\<lparr>Memory := True\<rparr> = l"
    and "Trigonometric l \<Longrightarrow> l\<lparr>Trigonometric := True\<rparr> = l"
    and "Logarithmic l \<Longrightarrow> l\<lparr>Logarithmic := True\<rparr> = l"
    and "Exponential l \<Longrightarrow> l\<lparr>Exponential := True\<rparr> = l"
    and "Statistical l \<Longrightarrow> l\<lparr>Statistical := True\<rparr> = l"
    and "LinearAlgebra l \<Longrightarrow> l\<lparr>LinearAlgebra := True\<rparr> = l"
    and "Calculus l \<Longrightarrow> l\<lparr>Calculus := True\<rparr> = l"
    and "Plotting l \<Longrightarrow> l\<lparr>Plotting := True\<rparr> = l"
    and "UnitConversion l \<Longrightarrow> l\<lparr>UnitConversion := True\<rparr> = l"
    and "ComplexNumbers l \<Longrightarrow> l\<lparr>ComplexNumbers := True\<rparr> = l"
    and "EquationSolver l \<Longrightarrow> l\<lparr>EquationSolver := True\<rparr> = l"
    and "MatrixOperations l \<Longrightarrow> l\<lparr>MatrixOperations := True\<rparr> = l"
    and "DataAnalysis l \<Longrightarrow> l\<lparr>DataAnalysis := True\<rparr> = l"
    and "Graphing l \<Longrightarrow> l\<lparr>Graphing := True\<rparr> = l"
    and "Programming l \<Longrightarrow> l\<lparr>Programming := True\<rparr> = l"
  by (cases l; simp)+

lemma flag_members:
  "UseNumpy \<in> set library_flags" "UsePandas \<in> set library_flags" "UseScipy \<in> set library_flags"
  "UseMath \<in> set library_flags" "UseSympy \<in> set library_flags" "UsePlotly \<in> set library_flags"
  "BasicArithmetic \<in> set feature_flags" "History \<in> set feature_flags" "Memory \<in> set feature_flags"
  "Trigonometric \<in> set feature_flags" "Logarithmic \<in> set feature_flags"
  "Exponential \<in> set feature_flags" "Statistical \<in> set feature_flags"
  "LinearAlgebra \<in> set feature_flags" "Calculus \<in> set feature_flags" "Plotting \<in> set feature_flags"
  "UnitConversion \<in> set feature_flags" "ComplexNumbers \<in> set feature_flags"
  "EquationSolver \<in> set feature_flags" "MatrixOperations \<in> set feature_flags"
  "DataAnalysis \<in> set feature_flags" "Graphing \<in> set feature_flags" "Programming \<in> set feature_flags"
  by (simp_all add: library_flags_def feature_flags_def)

lemma only_adds_library: "only_adds_flags c d \<Longrightarrow> f \<in> set library_flags \<Longrightarrow> f (Libraries c) \<Longrightarrow> f (Libraries d)"
  by (auto simp add: only_adds_flags_def)

lemma only_adds_feature: "only_adds_flags c d \<Longrightarrow> f \<in> set feature_flags \<Longrightarrow> f (Features c) \<Longrightarrow> f (Features d)"
  by (auto simp add: only_adds_flags_def)

lemma library_case_defined: "(library_case n c = None) = (library_case n d = None)"
  by (simp add: library_case_def)

lemma library_case_adds: "library_case n c = Some c1 \<Longrightarrow> only_adds_flags c c1"
  by (auto simp add: library_case_def only_adds_flags_def library_update_keeps split: if_splits)

lemma library_case_SomeE:
  assumes "library_case n c = Some c1"
  shows "(n = ''numpy'' \<and> c1 = c\<lparr>Libraries := (Libraries c)\<lparr>UseNumpy := True\<rparr>\<rparr>) \<or>
         (n = ''pandas'' \<and> c1 = c\<lparr>Libraries := (Libraries c)\<lparr>UsePandas := True\<rparr>\<rparr>) \<or>
         (n = ''scipy'' \<and> c1 = c\<lparr>Libraries := (Libraries c)\<lparr>UseScipy := True\<rparr>\<rparr>) \<or>
         (n = ''sympy'' \<and> c1 = c\<lparr>Libraries := (Libraries c)\<lparr>UseSympy := True\<rparr>\<rparr>) \<or>
         (n = ''plotly'' \<and> c1 = c\<lparr>Libraries := (Libraries c)\<lparr>UsePlotly := True\<rparr>\<rparr>) \<or>
         (n = ''math'' \<and> c1 = c\<lparr>Libraries := (Libraries c)\<lparr>UseMath := True\<rparr>\<rparr>)"
  using assms by (simp add: library_case_def split: if_splits)

lemma library_case_absorbed:
  assumes "library_case n c = Some c1" and "only_adds_flags c1 d"
  shows "library_case n d = Some d"
proof -
  have keep: "\<And>f. f \<in> set library_flags \<Longrightarrow> f (Libraries c1) \<Longrightarrow> f (Libraries d)"
    using assms(2) by (rule only_adds_library)
  from library_case_SomeE [OF assms(1)] show ?thesis
  proof (elim disjE conjE)
    assume "n = ''numpy''" "c1 = c\<lparr>Libraries := (Libraries c)\<lparr>UseNumpy := True\<rparr>\<rparr>"
    with keep [OF flag_members(1)] show ?thesis by (simp add: library_case_def library_update_same)
  next
    assume "n = ''pandas''" "c1 = c\<lparr>Libraries := (Libraries c)\<lparr>UsePandas := True\<rparr>\<rparr>"
    with keep [OF flag_members(2)] show ?thesis by (simp add: library_case_def library_update_same)
  next
    assume "n = ''scipy''" "c1 = c\<lparr>Libraries := (Libraries c)\<lparr>UseScipy := True\<rparr>\<rparr>"
    with keep [OF flag_members(3)] show ?thesis by (simp add: library_case_def library_update_same)
  next
    assume "n = ''sympy''" "c1 = c\<lparr>Libraries := (Libraries c)\<lparr>UseSympy := True\<rparr>\<rparr>"
    with keep [OF flag_members(5)] show ?thesis by (simp add: library_case_def library_update_same)
  next
    assume "n = ''plotly''" "c1 = c\<lparr>Libraries := (Libraries c)\<lparr>UsePlotly := True\<rparr>\<rparr>"
    with keep [OF flag_members(6)] show ?thesis by (simp add: library_case_def library_update_same)
  next
    assume "n = ''math''" "c1 = c\<lparr>Libraries := (Libraries c)\<lparr>UseMath := True\<rparr>\<rparr>"
    with keep [OF flag_members(4)] show ?thesis by (simp add: library_case_def library_update_same)
  qed
qed

lemma feature_case_SomeE:
  assumes "feature_case n c = Some c1"
  shows "(n = ''basic-arithmetic'' \<and> c1 = c\<lparr>Features := (Features c)\<lparr>BasicArithmetic := True\<rparr>\<rparr>) \<or>
     (n = ''arithmetic'' \<and> c1 = c\<lparr>Features := (Features c)\<lparr>BasicArithmetic := True\<rparr>\<rparr>) \<or>
     (n = ''trigonometric'' \<and> c1 = c\<lparr>Features := (Features c)\<lparr>Trigonometric := True\<rparr>,
        Libraries := (Libraries c)\<lparr>UseMath := True\<rparr>\<rparr>) \<or>
     (n = ''trig'' \<and> c1 = c\<lparr>Features := (Features c)\<lparr>Trigonometric := True\<rparr>,
        Libraries := (Libraries c)\<lparr>UseMath := True\<rparr>\<rparr>) \<or>
     (n = ''logarithmic'' \<and> c1 = c\<lparr>Features := (Features c)\<lparr>Logarithmic := True\<rparr>,
        Libraries := (Libraries c)\<lparr>UseMath := True\<rparr>\<rparr>) \<or>
     (n = ''log'' \<and> c1 = c\<lparr>Features := (Features c)\<lparr>Logarithmic := True\<rparr>,
        Libraries := (Libraries c)\<lparr>UseMath := True\<rparr>\<rparr>) \<or>
     (n = ''exponential'' \<and> c1 = c\<lparr>Features := (Features c)\<lparr>Exponential := True\<rparr>,
        Libraries := (Libraries c)\<lparr>UseMath := True\<rparr>\<rparr>) \<or>
     (n = ''exp'' \<and> c1 = c\<lparr>Features := (Features c)\<lparr>Exponential := True\<rparr>,
        Libraries := (Libraries c)\<lparr>UseMath := True\<rparr>\<rparr>) \<or>
     (n = ''statistical'' \<and> c1 = c\<lparr>Features := (Features c)\<lparr>Statistical := True\<rparr>,
        Libraries := (Libraries c)\<lparr>UseNumpy := True\<rparr>\<rparr>) \<or>
     (n = ''stats'' \<and> c1 = c\<lparr>Features := (Features c)\<lparr>Statistical := True\<rparr>,
        Libraries := (Libraries c)\<lparr>UseNumpy := True\<rparr>\<rparr>) \<or>
     (n = ''linear-algebra'' \<and> c1 = c\<lparr>Features := (Features c)\<lparr>LinearAlgebra := True\<rparr>,
        Libraries := (Libraries c)\<lparr>UseNumpy := True\<rparr>\<rparr>) \<or>
     (n = ''linalg'' \<and> c1 = c\<lparr>Features := (Features c)\<lparr>LinearAlgebra := True\<rparr>,
        Libraries := (Libraries c)\<lparr>UseNumpy := True\<rparr>\<rparr>) \<or>
     (n = ''calculus'' \<and> c1 = c\<lparr>Features := (Features c)\<lparr>Calculus := True\<rparr>,
        Libraries := (Libraries c)\<lparr>UseSympy := True\<rparr>\<rparr>) \<or>
     (n = ''plotting'' \<and> c1 = c\<lparr>Features := (Features c)\<lparr>Plotting := True\<rparr>,
        Libraries := (Libraries c)\<lparr>UsePlotly := True\<rparr>\<rparr>) \<or>
     (n = ''plot'' \<and> c1 = c\<lparr>Features := (Features c)\<lparr>Plotting := True\<rparr>,
        Libraries := (Libraries c)\<lparr>UsePlotly := True\<rparr>\<rparr>) \<or>
     (n = ''unit-conversion'' \<and> c1 = c\<lparr>Features := (Features c)\<lparr>UnitConversion := True\<rparr>\<rparr>) \<or>
     (n = ''units'' \<and> c1 = c\<lparr>Features := (Features c)\<lparr>UnitConversion := True\<rparr>\<rparr>) \<or>
     (n = ''complex-numbers'' \<and> c1 = c\<lparr>Features := (Features c)\<lparr>ComplexNumbers := True\<rparr>\<rparr>) \<or>
     (n = ''complex'' \<and> c1 = c\<lparr>Features := (Features c)\<lparr>ComplexNumbers := True\<rparr>\<rparr>) \<or>
     (n = ''equation-solver'' \<and> c1 = c\<lparr>Features := (Features c)\<lparr>EquationSolver := True\<rparr>,
        Libraries := (Libraries c)\<lparr>UseSympy := True\<rparr>\<rparr>) \<or>
     (n = ''solver'' \<and> c1 = c\<lparr>Features := (Features c)\<lparr>EquationSolver := True\<rparr>,
        Libraries := (Libraries c)\<lparr>UseSympy := True\<rparr>\<rparr>) \<or>
     (n = ''matrix-operations'' \<and> c1 = c\<lparr>Features := (Features c)\<lparr>MatrixOperations := True\<rparr>,
        Libraries := (Libraries c)\<lparr>UseNumpy := True\<rparr>\<rparr>) \<or>
     (n = ''matrix'' \<and> c1 = c\<lparr>Features := (Features c)\<lparr>MatrixOperations := True\<rparr>,
        Libraries := (Libraries c)\<lparr>UseNumpy := True\<rparr>\<rparr>) \<or>
     (n = ''data-analysis'' \<and> c1 = c\<lparr>Features := (Features c)\<lparr>DataAnalysis := True\<rparr>,
        Libraries := (Libraries c)\<lparr>UsePandas := True, UseNumpy := True\<rparr>\<rparr>) \<or>
     (n = ''data'' \<and> c1 = c\<lparr>Features := (Features c)\<lparr>DataAnalysis := True\<rparr>,
        Libraries := (Libraries c)\<lparr>UsePandas := True, UseNumpy := True\<rparr>\<rparr>) \<or>
     (n = ''graphing'' \<and> c1 = c\<lparr>Features := (Features c)\<lparr>Graphing := True\<rparr>,
        Libraries := (Libraries c)\<lparr>UsePlotly := True\<rparr>\<rparr>) \<or>
     (n = ''graph'' \<and> c1 = c\<lparr>Features := (Features c)\<lparr>Graphing := True\<rparr>,
        Libraries := (Libraries c)\<lparr>UsePlotly := True\<rparr>\<rparr>) \<or>
     (n = ''programming'' \<and> c1 = c\<lparr>Features := (Features c)\<lparr>Programming := True\<rparr>\<rparr>) \<or>
     (n = ''prog'' \<and> c1 = c\<lparr>Features := (Features c)\<lparr>Programming := True\<rparr>\<rparr>) \<or>
     (n = ''memory'' \<and> c1 = c\<lparr>Features := (Features c)\<lparr>Memory := True\<rparr>\<rparr>) \<or>
     (n = ''mem'' \<and> c1 = c\<lparr>Features := (Features c)\<lparr>Memory := True\<rparr>\<rparr>) \<or>
     (n = ''history'' \<and> c1 = c\<lparr>Features := (Features c)\<lparr>History := True\<rparr>\<rparr>) \<or>
     (n = ''hist'' \<and> c1 = c\<lparr>Features := (Features c)\<lparr>History := True\<rparr>\<rparr>)"
  using assms by (auto simp add: feature_case_def split: if_splits)

lemma feature_case_absorbed:
  assumes "feature_case n c = Some c1" and "only_adds_flags c1 d"
  shows "feature_case n d = Some d"
proof -
  have keepL: "\<And>f. f \<in> set library_flags \<Longrightarrow> f (Libraries c1) \<Longrightarrow> f (Libraries d)"
    using assms(2) by (rule only_adds_library)
  have keepF: "\<And>f. f \<in> set feature_flags \<Longrightarrow> f (Features c1) \<Longrightarrow> f (Features d)"
    using assms(2) by (rule only_adds_feature)
  from feature_case_SomeE [OF assms(1)] show ?thesis
  proof (elim disjE conjE)
    assume "n = ''basic-arithmetic''"
      "c1 = c\<lparr>Features := (Features c)\<lparr>BasicArithmetic := True\<rparr>\<rparr>"
    with keepF [OF flag_members(7)] show ?thesis
      by (simp add: feature_case_def library_update_same feature_update_same)
  next
    assume "n = ''arithmetic''"
      "c1 = c\<lparr>Features := (Features c)\<lparr>BasicArithmetic := True\<rparr>\<rparr>"
    with keepF [OF flag_members(7)] show ?thesis
      by (simp add: feature_case_def library_update_same feature_update_same)
  next
    assume "n = ''trigonometric''"
      "c1 = c\<lparr>Features := (Features c)\<lparr>Trigonometric := True\<rparr>,
          Libraries := (Libraries c)\<lparr>UseMath := True\<rparr>\<rparr>"
    with keepF [OF flag_members(10)] keepL [OF flag_members(4)] show ?thesis
      by (simp add: feature_case_def library_update_same feature_update_same)
  next
    assume "n = ''trig''"
      "c1 = c\<lparr>Features := (Features c)\<lparr>Trigonometric := True\<rparr>,
          Libraries := (Libraries c)\<lparr>UseMath := True\<rparr>\<rparr>"
    with keepF [OF flag_members(10)] keepL [OF flag_members(4)] show ?thesis
      by (simp add: feature_case_def library_update_same feature_update_same)
  next
    assume "n = ''logarithmic''"
      "c1 = c\<lparr>Features := (Features c)\<lparr>Logarithmic := True\<rparr>,
          Libraries := (Libraries c)\<lparr>UseMath := True\<rparr>\<rparr>"
    with keepF [OF flag_members(11)] keepL [OF flag_members(4)] show ?thesis
      by (simp add: feature_case_def library_update_same feature_update_same)
  next
    assume "n = ''log''"
      "c1 = c\<lparr>Features := (Features c)\<lparr>Logarithmic := True\<rparr>,
          Libraries := (Libraries c)\<lparr>UseMath := True\<rparr>\<rparr>"
    with keepF [OF flag_members(11)] keepL [OF flag_members(4)] show ?thesis
      by (simp add: feature_case_def library_update_same feature_update_same)
  next
    assume "n = ''exponential''"
      "c1 = c\<lparr>Features := (Features c)\<lparr>Exponential := True\<rparr>,
          Libraries := (Libraries c)\<lparr>UseMath := True\<rparr>\<rparr>"
    with keepF [OF flag_members(12)] keepL [OF flag_members(4)] show ?thesis
      by (simp add: feature_case_def library_update_same feature_update_same)
  next
    assume "n = ''exp''"
      "c1 = c\<lparr>Features := (Features c)\<lparr>Exponential := True\<rparr>,
          Libraries := (Libraries c)\<lparr>UseMath := True\<rparr>\<rparr>"
    with keepF [OF flag_members(12)] keepL [OF flag_members(4)] show ?thesis
      by (simp add: feature_case_def library_update_same feature_update_same)
  next
    assume "n = ''statistical''"
      "c1 = c\<lparr>Features := (Features c)\<lparr>Statistical := True\<rparr>,
          Libraries := (Libraries c)\<lparr>UseNumpy := True\<rparr>\<rparr>"
    with keepF [OF flag_members(13)] keepL [OF flag_members(1)] show ?thesis
      by (simp add: feature_case_def library_update_same feature_update_same)
  next
    assume "n = ''stats''"
      "c1 = c\<lparr>Features := (Features c)\<lparr>Statistical := True\<rparr>,
          Libraries := (Libraries c)\<lparr>UseNumpy := True\<rparr>\<rparr>"
    with keepF [OF flag_members(13)] keepL [OF flag_members(1)] show ?thesis
      by (simp add: feature_case_def library_update_same feature_update_same)
  next
    assume "n = ''linear-algebra''"
      "c1 = c\<lparr>Features := (Features c)\<lparr>LinearAlgebra := True\<rparr>,
          Libraries := (Libraries c)\<lparr>UseNumpy := True\<rparr>\<rparr>"
    with keepF [OF flag_members(14)] keepL [OF flag_members(1)] show ?thesis
      by (simp add: feature_case_def library_update_same feature_update_same)
  next
    assume "n = ''linalg''"
      "c1 = c\<lparr>Features := (Features c)\<lparr>LinearAlgebra := True\<rparr>,
          Libraries := (Libraries c)\<lparr>UseNumpy := True\<rparr>\<rparr>"
    with keepF [OF flag_members(14)] keepL [OF flag_members(1)] show ?thesis
      by (simp add: feature_case_def library_update_same feature_update_same)
  next
    assume "n = ''calculus''"
      "c1 = c\<lparr>Features := (Features c)\<lparr>Calculus := True\<rparr>,
          Libraries := (Libraries c)\<lparr>UseSympy := True\<rparr>\<rparr>"
    with keepF [OF flag_members(15)] keepL [OF flag_members(5)] show ?thesis
      by (simp add: feature_case_def library_update_same feature_update_same)
  next
    assume "n = ''plotting''"
      "c1 = c\<lparr>Features := (Features c)\<lparr>Plotting := True\<rparr>,
          Libraries := (Libraries c)\<lparr>UsePlotly := True\<rparr>\<rparr>"
    with keepF [OF flag_members(16)] keepL [OF flag_members(6)] show ?thesis
      by (simp add: feature_case_def library_update_same feature_update_same)
  next
    assume "n = ''plot''"
      "c1 = c\<lparr>Features := (Features c)\<lparr>Plotting := True\<rparr>,
          Libraries := (Libraries c)\<lparr>UsePlotly := True\<rparr>\<rparr>"
    with keepF [OF flag_members(16)] keepL [OF flag_members(6)] show ?thesis
      by (simp add: feature_case_def library_update_same feature_update_same)
  next
    assume "n = ''unit-conversion''"
      "c1 = c\<lparr>Features := (Features c)\<lparr>UnitConversion := True\<rparr>\<rparr>"
    with keepF [OF flag_members(17)] show ?thesis
      by (simp add: feature_case_def library_update_same feature_update_same)
  next
    assume "n = ''units''"
      "c1 = c\<lparr>Features := (Features c)\<lparr>UnitConversion := True\<rparr>\<rparr>"
    with keepF [OF flag_members(17)] show ?thesis
      by (simp add: feature_case_def library_update_same feature_update_same)
  next
    assume "n = ''complex-numbers''"
      "c1 = c\<lparr>Features := (Features c)\<lparr>ComplexNumbers := True\<rparr>\<rparr>"
    with keepF [OF flag_members(18)] show ?thesis
      by (simp add: feature_case_def library_update_same feature_update_same)
  next
    assume "n = ''complex''"
      "c1 = c\<lparr>Features := (Features c)\<lparr>ComplexNumbers := True\<rparr>\<rparr>"
    with keepF [OF flag_members(18)] show ?thesis
      by (simp add: feature_case_def library_update_same feature_update_same)
  next
    assume "n = ''equation-solver''"
      "c1 = c\<lparr>Features := (Features c)\<lparr>EquationSolver := True\<rparr>,
          Libraries := (Libraries c)\<lparr>UseSympy := True\<rparr>\<rparr>"
    with keepF [OF flag_members(19)] keepL [OF flag_members(5)] show ?thesis
      by (simp add: feature_case_def library_update_same feature_update_same)
  next
    assume "n = ''solver''"
      "c1 = c\<lparr>Features := (Features c)\<lparr>EquationSolver := True\<rparr>,
          Libraries := (Libraries c)\<lparr>UseSympy := True\<rparr>\<rparr>"
    with keepF [OF flag_members(19)] keepL [OF flag_members(5)] show ?thesis
      by (simp add: feature_case_def library_update_same feature_update_same)
  next
    assume "n = ''matrix-operations''"
      "c1 = c\<lparr>Features := (Features c)\<lparr>MatrixOperations := True\<rparr>,
          Libraries := (Libraries c)\<lparr>UseNumpy := True\<rparr>\<rparr>"
    with keepF [OF flag_members(20)] keepL [OF flag_members(1)] show ?thesis
      by (simp add: feature_case_def library_update_same feature_update_same)
  next
    assume "n = ''matrix''"
      "c1 = c\<lparr>Features := (Features c)\<lparr>MatrixOperations := True\<rparr>,
          Libraries := (Libraries c)\<lparr>UseNumpy := True\<rparr>\<rparr>"
    with keepF [OF flag_members(20)] keepL [OF flag_members(1)] show ?thesis
      by (simp add: feature_case_def library_update_same feature_update_same)
  next
    assume "n = ''data-analysis''"
      "c1 = c\<lparr>Features := (Features c)\<lparr>DataAnalysis := True\<rparr>,
          Libraries := (Libraries c)\<lparr>UsePandas := True, UseNumpy := True\<rparr>\<rparr>"
    with keepF [OF flag_members(21)] keepL [OF flag_members(2)] keepL [OF flag_members(1)] show ?thesis
      by (simp add: feature_case_def library_update_same feature_update_same)
  next
    assume "n = ''data''"
      "c1 = c\<lparr>Features := (Features c)\<lparr>DataAnalysis := True\<rparr>,
          Libraries := (Libraries c)\<lparr>UsePandas := True, UseNumpy := True\<rparr>\<rparr>"
    with keepF [OF flag_members(21)] keepL [OF flag_members(2)] keepL [OF flag_members(1)] show ?thesis
      by (simp add: feature_case_def library_update_same feature_update_same)
  next
    assume "n = ''graphing''"
      "c1 = c\<lparr>Features := (Features c)\<lparr>Graphing := True\<rparr>,
          Libraries := (Libraries c)\<lparr>UsePlotly := True\<rparr>\<rparr>"
    with keepF [OF flag_members(22)] keepL [OF flag_members(6)] show ?thesis
      by (simp add: feature_case_def library_update_same feature_update_same)
  next
    assume "n = ''graph''"
      "c1 = c\<lparr>Features := (Features c)\<lparr>Graphing := True\<rparr>,
          Libraries := (Libraries c)\<lparr>UsePlotly := True\<rparr>\<rparr>"
    with keepF [OF flag_members(22)] keepL [OF flag_members(6)] show ?thesis
      by (simp add: feature_case_def library_update_same feature_update_same)
  next
    assume "n = ''programming''"
      "c1 = c\<lparr>Features := (Features c)\<lparr>Programming := True\<rparr>\<rparr>"
    with keepF [OF flag_members(23)] show ?thesis
      by (simp add: feature_case_def library_update_same feature_update_same)
  next
    assume "n = ''prog''"
      "c1 = c\<lparr>Features := (Features c)\<lparr>Programming := True\<rparr>\<rparr>"
    with keepF [OF flag_members(23)] show ?thesis
      by (simp add: feature_case_def library_update_same feature_update_same)
  next
    assume "n = ''memory''"
      "c1 = c\<lparr>Features := (Features c)\<lparr>Memory := True\<rparr>\<rparr>"
    with keepF [OF flag_members(9)] show ?thesis
      by (simp add: feature_case_def library_update_same feature_update_same)
  next
    assume "n = ''mem''"
      "c1 = c\<lparr>Features := (Features c)\<lparr>Memory := True\<rparr>\<rparr>"
    with keepF [OF flag_members(9)] show ?thesis
      by (simp add: feature_case_def library_update_same feature_update_same)
  next
    assume "n = ''history''"
      "c1 = c\<lparr>Features := (Features c)\<lparr>History := True\<rparr>\<rparr>"
    with keepF [OF flag_members(8)] show ?thesis
      by (simp add: feature_case_def library_update_same feature_update_same)
  next
    assume "n = ''hist''"
      "c1 = c\<lparr>Features := (Features c)\<lparr>History := True\<rparr>\<rparr>"
    with keepF [OF flag_members(8)] show ?thesis
      by (simp add: feature_case_def library_update_same feature_update_same)
  qed
qed

lemma feature_case_adds: "feature_case n c = Some c1 \<Longrightarrow> only_adds_flags c c1"
  by (drule feature_case_SomeE, elim disjE conjE;
      simp add: only_adds_flags_def library_update_keeps feature_update_keeps)

lemma feature_case_defined: "(feature_case n c = None) = (feature_case n d = None)"
  by (simp add: feature_case_def)

lemma applyLibraries_range_adds:
  "applyLibraries_range ns c = (c', e) \<Longrightarrow> only_adds_flags c c'"
proof (induction ns arbitrary: c)
  case Nil
  then show ?case by (simp add: only_adds_refl)
next
  case (Cons n ns)
  show ?case
  proof (cases "library_case (strings_TrimSpace (strings_ToLower n)) c")
    case None
    with Cons.prems show ?thesis by (simp add: only_adds_refl)
  next
    case (Some c1)
    with Cons.prems have "applyLibraries_range ns c1 = (c', e)" by simp
    then have "only_adds_flags c1 c'" by (rule Cons.IH)
    with library_case_adds [OF Some] show ?thesis by (rule only_adds_trans)
  qed
qed

lemma applyLibraries_range_absorbed:
  "applyLibraries_range ns c = (c', e) \<Longrightarrow> only_adds_flags c' d \<Longrightarrow> applyLibraries_range ns d = (d, e)"
proof (induction ns arbitrary: c)
  case Nil
  then show ?case by simp
next
  case (Cons n ns)
  show ?case
  proof (cases "library_case (strings_TrimSpace (strings_ToLower n)) c")
    case None
    then have "library_case (strings_TrimSpace (strings_ToLower n)) d = None"
      using library_case_defined by blast
    with None Cons.prems show ?thesis by simp
  next
    case (Some c1)
    with Cons.prems have run: "applyLibraries_range ns c1 = (c', e)" by simp
    then have "only_adds_flags c1 c'" by (rule applyLibraries_range_adds)
    then have "only_adds_flags c1 d" using Cons.prems(2) by (rule only_adds_trans)
    with Some have "library_case (strings_TrimSpace (strings_ToLower n)) d = Some d"
      by (rule library_case_absorbed)
    moreover have "applyLibraries_range ns d = (d, e)" using run Cons.prems(2) by (rule Cons.IH)
    ultimately show ?thesis by simp
  qed
qed

lemma applyFeatures_range_adds:
  "applyFeatures_range ns c = (c', e) \<Longrightarrow> only_adds_flags c c'"
proof (induction ns arbitrary: c)
  case Nil
  then show ?case by (simp add: only_adds_refl)
next
  case (Cons n ns)
  show ?case
  proof (cases "feature_case (strings_TrimSpace (strings_ToLower n)) c")
    case None
    with Cons.prems show ?thesis by (simp add: only_adds_refl)
  next
    case (Some c1)
    with Cons.prems have "applyFeatures_range ns c1 = (c', e)" by simp
    then have "only_adds_flags c1 c'" by (rule Cons.IH)
    with feature_case_adds [OF Some] show ?thesis by (rule only_adds_trans)
  qed
qed

lemma applyFeatures_range_absorbed:
  "applyFeatures_range ns c = (c', e) \<Longrightarrow> only_adds_flags c' d \<Longrightarrow> applyFeatures_range ns d = (d, e)"
proof (induction ns arbitrary: c)
  case Nil
  then show ?case by simp
next
  case (Cons n ns)
  show ?case
  proof (cases "feature_case (strings_TrimSpace (strings_ToLower n)) c")
    case None
    then have "feature_case (strings_TrimSpace (strings_ToLower n)) d = None"
      using feature_case_defined by blast
    with None Cons.prems show ?thesis by simp
  next
    case (Some c1)
    with Cons.prems have run: "applyFeatures_range ns c1 = (c', e)" by simp
    then have "only_adds_flags c1 c'" by (rule applyFeatures_range_adds)
    then have "only_adds_flags c1 d" using Cons.prems(2) by (rule only_adds_trans)
    with Some have "feature_case (strings_TrimSpace (strings_ToLower n)) d = Some d"
      by (rule feature_case_absorbed)
    moreover have "applyFeatures_range ns d = (d, e)" using run Cons.prems(2) by (rule Cons.IH)
    ultimately show ?thesis by simp
  qed
qed

lemma applyLibrariesFromFlags_adds:
  "applyLibrariesFromFlags v c = (c', e) \<Longrightarrow> only_adds_flags c c'"
  by (auto simp add: applyLibrariesFromFlags_def Let_def only_adds_refl
      intro: applyLibraries_range_adds split: if_splits)

lemma applyLibrariesFromFlags_absorbed:
  "applyLibrariesFromFlags v c = (c', e) \<Longrightarrow> only_adds_flags c' d \<Longrightarrow> applyLibrariesFromFlags v d = (d, e)"
  by (auto simp add: applyLibrariesFromFlags_def Let_def
      intro: applyLibraries_range_absorbed split: if_splits)

lemma applyFeaturesFromFlags_adds:
  "applyFeaturesFromFlags v c = (c', e) \<Longrightarrow> only_adds_flags c c'"
  by (auto simp add: applyFeaturesFromFlags_def Let_def only_adds_refl
      intro: applyFeatures_range_adds split: if_splits)

lemma applyFeaturesFromFlags_absorbed:
  "applyFeaturesFromFlags v c = (c', e) \<Longrightarrow> only_adds_flags c' d \<Longrightarrow> applyFeaturesFromFlags v d = (d, e)"
  by (auto simp add: applyFeaturesFromFlags_def Let_def
      intro: applyFeatures_range_absorbed split: if_splits)

lemma resolve_adds: "resolve v c = (c', e) \<Longrightarrow> only_adds_flags c c'"
proof -
  assume r: "resolve v c = (c', e)"
  obtain c1 e1 where l: "applyLibrariesFromFlags v c = (c1, e1)" by (cases "applyLibrariesFromFlags v c")
  show ?thesis
  proof (cases e1)
    case None
    with r l have "applyFeaturesFromFlags v c1 = (c', e)" by (simp add: resolve_def)
    then have "only_adds_flags c1 c'" by (rule applyFeaturesFromFlags_adds)
    with applyLibrariesFromFlags_adds [OF l] show ?thesis by (rule only_adds_trans)
  next
    case (Some err)
    with r l have "c' = c1" by (simp add: resolve_def)
    with applyLibrariesFromFlags_adds [OF l] show ?thesis by simp
  qed
qed

lemma resolve_absorbed:
  assumes r: "resolve v c = (c', e)" and le: "only_adds_flags c' d"
  shows "resolve v d = (d, e)"
proof -
  obtain c1 e1 where l: "applyLibrariesFromFlags v c = (c1, e1)" by (cases "applyLibrariesFromFlags v c")
  show ?thesis
  proof (cases e1)
    case None
    with r l have f: "applyFeaturesFromFlags v c1 = (c', e)" by (simp add: resolve_def)
    then have "only_adds_flags c1 c'" by (rule applyFeaturesFromFlags_adds)
    then have "only_adds_flags c1 d" using le by (rule only_adds_trans)
    with l have "applyLibrariesFromFlags v d = (d, e1)" by (rule applyLibrariesFromFlags_absorbed)
    moreover have "applyFeaturesFromFlags v d = (d, e)" using f le by (rule applyFeaturesFromFlags_absorbed)
    ultimately show ?thesis using None by (simp add: resolve_def)
  next
    case (Some err)
    with r l have eq: "c' = c1" "e = Some err" by (simp_all add: resolve_def)
    with l le Some have "applyLibrariesFromFlags v d = (d, Some err)"
      using applyLibrariesFromFlags_absorbed by blast
    with eq show ?thesis by (simp add: resolve_def)
  qed
qed


lemma applyFeatures_range_member:
  "n \<in> set (map (\<lambda>n. strings_TrimSpace (strings_ToLower n)) ns) \<Longrightarrow>
   applyFeatures_range ns c = (c', None) \<Longrightarrow>
   \<exists>c0 c1. feature_case n c0 = Some c1 \<and> only_adds_flags c1 c'"
proof (induction ns arbitrary: c)
  case Nil
  then show ?case by simp
next
  case (Cons m ns)
  from Cons.prems(2) obtain c1 where
    step: "feature_case (strings_TrimSpace (strings_ToLower m)) c = Some c1" and
    run: "applyFeatures_range ns c1 = (c', None)"
    by (cases "feature_case (strings_TrimSpace (strings_ToLower m)) c") simp_all
  show ?case
  proof (cases "n = strings_TrimSpace (strings_ToLower m)")
    case True
    with step applyFeatures_range_adds [OF run] show ?thesis by blast
  next
    case False
    with Cons.prems(1) have "n \<in> set (map (\<lambda>n. strings_TrimSpace (strings_ToLower n)) ns)" by simp
    then show ?thesis using run by (rule Cons.IH)
  qed
qed

lemma entailment_table_case:
  "(n, feat, libs) \<in> set entailment_table \<Longrightarrow> feature_case n c0 = Some c1 \<Longrightarrow>
   feat (Features c1) \<and> (\<forall>lib \<in> set libs. lib (Libraries c1))"
  by (auto simp add: entailment_table_def feature_case_def)

lemma entailment_table_flags:
  "(n, feat, libs) \<in> set entailment_table \<Longrightarrow>
   feat \<in> set feature_flags \<and> (\<forall>lib \<in> set libs. lib \<in> set library_flags)"
  by (auto simp add: entailment_table_def feature_flags_def library_flags_def)


section \<open>The text of the script and the calls of \<open>Generate\<close>\<close>

lemma sublist_skip: "sublist xs zs \<Longrightarrow> sublist xs (ys @ zs)"
proof -
  assume "sublist xs zs"
  then obtain ps ss where "zs = ps @ xs @ ss" unfolding sublist_def by blast
  then have "ys @ zs = (ys @ ps) @ xs @ ss" by simp
  then show ?thesis unfolding sublist_def by blast
qed

lemma sublist_in_lines:
  "i \<in> set xs \<Longrightarrow> sublist (i @ s) (concat (map (\<lambda>i. i @ s) xs) @ rest)"
proof -
  assume "i \<in> set xs"
  then obtain ys zs where "xs = ys @ i # zs" by (auto simp add: in_set_conv_decomp)
  then have "concat (map (\<lambda>i. i @ s) xs) @ rest =
      concat (map (\<lambda>i. i @ s) ys) @ (i @ s) @ (concat (map (\<lambda>i. i @ s) zs) @ rest)"
    by simp
  then show ?thesis unfolding sublist_def by blast
qed


lemma renderTemplate_total: "\<exists>text. renderTemplate data = Inr text"
  unfolding renderTemplate_def by blast

lemma renderGUITemplate_total: "\<exists>text. renderGUITemplate data = Inr text"
  unfolding renderGUITemplate_def by blast

lemma renderTemplate_import:
  assumes "renderTemplate data = Inr text" and "i \<in> set (Imports data)"
  shows "sublist (i @ ''\<newline>'') text"
proof -
  have "sublist (i @ ''\<newline>'') (projr (renderTemplate data))"
    unfolding renderTemplate_def sum.sel
    by (rule sublist_in_lines [OF assms(2)] | rule sublist_skip)+
  with assms(1) show ?thesis by simp
qed



lemma renderTemplate_timestamp:
  "renderTemplate (d\<lparr>Timestamp := ta\<rparr>) = renderTemplate (d\<lparr>Timestamp := tb\<rparr>) \<longleftrightarrow> ta = tb"
  by (simp add: renderTemplate_def)

lemma script_text_total: "\<exists>text. script_text h g = Inr text"
  using renderTemplate_total renderGUITemplate_total
  by (simp add: script_text_def GenerateGUICalculator_def)

lemma Generate_valid:
  assumes "validateConfig g = None" and "script_text h g = Inr text"
  shows "Generate h g tr =
    (case writeToFile h g text tr of
       (tr1, Some err) \<Rightarrow> (tr1, Some (Wrapf ''file writing failed: %w'' err))
     | (tr1, None) \<Rightarrow>
        (case generateRequirements h g tr1 of
           (tr2, Some err) \<Rightarrow> (tr2, Some (Wrapf ''requirements generation failed: %w'' err))
         | (tr2, None) \<Rightarrow> (tr2, None)))"
  using assms by (simp add: Generate_def script_text_def Let_def)

lemma writeToFile_trace:
  assumes "writeToFile h g text tr = (tr1, e)"
  shows "\<exists>new. tr1 = tr @ new \<and> (\<forall>p t m. WriteFile p t m \<in> set new \<longrightarrow> p = OutputFile g \<and> t = text \<and> m = 493)
           \<and> (e = None \<longrightarrow> WriteFile (OutputFile g) text 493 \<in> set new)"
  using assms
  by (auto simp add: writeToFile_def perform_def Let_def split: if_splits option.splits)

lemma generateRequirements_trace:
  assumes "generateRequirements h g tr = (tr1, e)"
  shows "\<exists>new. tr1 = tr @ new \<and> (\<forall>p t m. WriteFile p t m \<in> set new \<longrightarrow> m = 420)"
  using assms
  by (auto simp add: generateRequirements_def perform_def Let_def split: if_splits)

lemma Generate_script_write:
  assumes "Generate h g [] = (tr', e)" and "WriteFile p t 493 \<in> set tr'"
  shows "script_text h g = Inr t \<and> p = OutputFile g"
proof (cases "validateConfig g")
  case (Some err)
  with assms show ?thesis by (simp add: Generate_def)
next
  case None
  obtain src where src: "script_text h g = Inr src" using script_text_total by blast
  obtain tr1 e1 where w: "writeToFile h g src [] = (tr1, e1)" by (cases "writeToFile h g src []")
  from writeToFile_trace [OF w] have
    w1: "\<forall>p t m. WriteFile p t m \<in> set tr1 \<longrightarrow> p = OutputFile g \<and> t = src \<and> m = 493"
    by auto
  show ?thesis
  proof (cases e1)
    case (Some err)
    with assms(1) None src w have "tr' = tr1" by (simp add: Generate_valid)
    with assms(2) w1 src show ?thesis by blast
  next
    case e1: None
    obtain tr2 e2 where r: "generateRequirements h g tr1 = (tr2, e2)"
      by (cases "generateRequirements h g tr1")
    with assms(1) None src w e1 have "tr' = tr2"
      by (simp add: Generate_valid split: option.splits)
    moreover obtain new where new: "tr2 = tr1 @ new" "\<forall>p t m. WriteFile p t m \<in> set new \<longrightarrow> m = 420"
      using generateRequirements_trace [OF r] by blast
    moreover have "WriteFile p t 493 \<notin> set new"
    proof
      assume "WriteFile p t 493 \<in> set new"
      with new(2) have "(493::nat) = 420" by blast
      then show False by simp
    qed
    ultimately have "WriteFile p t 493 \<in> set tr1"
      using assms(2) by simp
    with w1 src show ?thesis by blast
  qed
qed

lemma Generate_success_script:
  assumes "Generate h g [] = (tr', None)"
  shows "validateConfig g = None \<and> (\<exists>text. script_text h g = Inr text \<and> WriteFile (OutputFile g) text 493 \<in> set tr')"
proof (cases "validateConfig g")
  case (Some err)
  with assms show ?thesis by (simp add: Generate_def)
next
  case None
  obtain src where src: "script_text h g = Inr src" using script_text_total by blast
  obtain tr1 e1 where w: "writeToFile h g src [] = (tr1, e1)" by (cases "writeToFile h g src []")
  obtain tr2 e2 where r: "generateRequirements h g tr1 = (tr2, e2)"
    by (cases "generateRequirements h g tr1")
  from assms None src w r have e1: "e1 = None" and tr': "tr' = tr2"
    by (auto simp add: Generate_valid split: option.splits)
  from writeToFile_trace [OF w] e1 have "WriteFile (OutputFile g) src 493 \<in> set tr1" by auto
  with generateRequirements_trace [OF r] tr' have "WriteFile (OutputFile g) src 493 \<in> set tr'" by auto
  with None src show ?thesis by blast
qed

lemma Generate_quiet:
  assumes "validateConfig g = None" and "\<And>tr op. io_error h tr op = None"
  shows "snd (Generate h g tr) = None"
proof -
  obtain src where src: "script_text h g = Inr src" using script_text_total by blast
  have w: "snd (writeToFile h g src tr) = None"
    by (simp add: writeToFile_def perform_def Let_def assms(2))
  have r: "snd (generateRequirements h g tr1) = None" for tr1
    by (simp add: generateRequirements_def perform_def Let_def assms(2))
  obtain tr1 where w1: "writeToFile h g src tr = (tr1, None)"
    using w by (cases "writeToFile h g src tr") simp
  obtain tr2 where r2: "generateRequirements h g tr1 = (tr2, None)"
    using r [of tr1] by (cases "generateRequirements h g tr1") simp
  show ?thesis
    by (simp add: Generate_valid [OF assms(1) src] w1 r2)
qed

lemma prepareTemplateData_clock:
  "prepareTemplateData h g = (prepareTemplateData h0 g)\<lparr>Timestamp := Now h\<rparr>"
  by (simp add: prepareTemplateData_def Let_def)

lemma script_text_cli_clock:
  assumes "Style (UI g) \<noteq> ''gui''"
  shows "script_text h1 g = script_text h2 g \<longleftrightarrow> Now h1 = Now h2"
proof -
  define d where "d = prepareTemplateData h1 g"
  have d1: "prepareTemplateData h1 g = d\<lparr>Timestamp := Now h1\<rparr>"
    unfolding d_def by (rule prepareTemplateData_clock)
  have d2: "prepareTemplateData h2 g = d\<lparr>Timestamp := Now h2\<rparr>"
    unfolding d_def by (rule prepareTemplateData_clock)
  have "script_text h1 g = renderTemplate (d\<lparr>Timestamp := Now h1\<rparr>)"
    using assms by (simp only: script_text_def d1 if_False)
  moreover have "script_text h2 g = renderTemplate (d\<lparr>Timestamp := Now h2\<rparr>)"
    using assms by (simp only: script_text_def d2 if_False)
  ultimately show ?thesis by (simp only: renderTemplate_timestamp)
qed

lemma script_text_gui_clock:
  assumes "Style (UI g) = ''gui''"
  shows "script_text h1 g = script_text h2 g"
  using assms by (simp add: script_text_def)

lemma validate_default: "validateConfig GetDefaultConfig = None" "validateConfig gui_config = None"
  by (simp_all add: validateConfig_def GetDefaultConfig_def gui_config_def)

lemma Generate_default_trace:
  assumes "script_text h GetDefaultConfig = Inr src" and "filepath_Dir h = (\<lambda>p. ''.'')"
    and "io_error h = (\<lambda>tr op. None)"
  shows "Generate h GetDefaultConfig [] = ([WriteFile ''calculator.py'' src 493], None)"
proof -
  have w: "writeToFile h GetDefaultConfig src [] = ([WriteFile ''calculator.py'' src 493], None)"
    using assms(2,3) by (simp add: writeToFile_def perform_def GetDefaultConfig_def)
  have r: "generateRequirements h GetDefaultConfig tr = (tr, None)" for tr
    by (simp add: generateRequirements_def GetDefaultConfig_def)
  show ?thesis
    unfolding Generate_valid [OF validate_default(1) assms(1)] w by (simp add: r)
qed

lemma Generate_gui_trace:
  assumes "script_text h gui_config = Inr src" and "filepath_Dir h = (\<lambda>p. ''.'')"
    and "filepath_Join h = (\<lambda>d f. d @ ''/'' @ f)" and "io_error h = (\<lambda>tr op. None)"
  shows "Generate h gui_config [] =
    ([WriteFile ''calculator.py'' src 493,
      WriteFile ''./requirements.txt'' ''# tkinter (included with Python)\<newline>'' 420], None)"
proof -
  have w: "writeToFile h gui_config src [] = ([WriteFile ''calculator.py'' src 493], None)"
    using assms(2,4) by (simp add: writeToFile_def perform_def GetDefaultConfig_def gui_config_def)
  have r: "generateRequirements h gui_config tr =
      (tr @ [WriteFile ''./requirements.txt'' ''# tkinter (included with Python)\<newline>'' 420], None)" for tr
    using assms(2,3,4) by (simp add: generateRequirements_def perform_def GetDefaultConfig_def gui_config_def)
  show ?thesis
    unfolding Generate_valid [OF validate_default(2) assms(1)] w by (simp add: r)
qed

lemma strings_Join_lines:
  "ls \<noteq> [] \<Longrightarrow> strings_Join ls s @ s = concat (map (\<lambda>l. l @ s) ls)"
  by (induction ls s rule: strings_Join.induct) simp_all

lemma manifest_lines_eq:
  "manifest_lines g =
    (if UseNumpy (Libraries g) then [''numpy>=1.21.0''] else []) @
    (if UsePandas (Libraries g) then [''pandas>=1.3.0''] else []) @
    (if UseScipy (Libraries g) then [''scipy>=1.7.0''] else []) @
    (if UseSympy (Libraries g) then [''sympy>=1.9.0''] else []) @
    (if UsePlotly (Libraries g) \<or> Plotting (Features g) then [''plotly>=5.0.0''] else []) @
    (if Style (UI g) = ''gui'' then [''# tkinter (included with Python)''] else [])"
  by (simp add: manifest_lines_def manifest_table_def)

lemma generateRequirements_lines:
  "generateRequirements h g tr =
     (if manifest_lines g = [] then (tr, None)
      else perform h (WriteFile (manifest_path h g)
             (concat (map (\<lambda>l. l @ ''\<newline>'') (manifest_lines g))) 420) tr)"
proof (cases "manifest_lines g = []")
  case True
  then show ?thesis by (simp add: generateRequirements_def manifest_lines_eq [symmetric])
next
  case False
  then show ?thesis
    by (simp add: generateRequirements_def manifest_lines_eq [symmetric] Let_def manifest_path_def
        strings_Join_lines)
qed

lemma renderGUITemplate_import:
  assumes "renderGUITemplate data = Inr src" and "i \<in> set (Imports data)"
  shows "sublist (i @ ''\<newline>'') src"
proof -
  have "sublist (i @ ''\<newline>'') (projr (renderGUITemplate data))"
    unfolding renderGUITemplate_def sum.sel
    by (rule sublist_in_lines [OF assms(2)] | rule sublist_skip)+
  with assms(1) show ?thesis by simp
qed

lemma script_text_import:
  assumes "script_text h g = Inr src"
    and "i \<in> set (generateImports g)" and "i \<in> set (generateGUIImports g)"
  shows "sublist (i @ ''\<newline>'') src"
proof (cases "Style (UI g) = ''gui''")
  case True
  with assms(1) have "renderGUITemplate (prepareGUITemplateData g) = Inr src"
    by (simp add: script_text_def GenerateGUICalculator_def)
  moreover have "i \<in> set (Imports (prepareGUITemplateData g))"
    using assms(3) by (simp add: prepareGUITemplateData_def)
  ultimately show ?thesis by (rule renderGUITemplate_import)
next
  case False
  with assms(1) have "renderTemplate (prepareTemplateData h g) = Inr src"
    by (simp add: script_text_def)
  moreover have "i \<in> set (Imports (prepareTemplateData h g))"
    using assms(2) by (simp add: prepareTemplateData_def)
  ultimately show ?thesis by (rule renderTemplate_import)
qed

lemma sublist_in_lines_end:
  "i \<in> set xs \<Longrightarrow> sublist (i @ s) (concat (map (\<lambda>i. i @ s) xs))"
  using sublist_in_lines [of i xs s "[]"] by simp

lemma Generate_success_manifest:
  assumes "Generate h g [] = (tr', None)" and "manifest_lines g \<noteq> []"
  shows "WriteFile (manifest_path h g) (concat (map (\<lambda>l. l @ ''\<newline>'') (manifest_lines g))) 420 \<in> set tr'"
proof -
  have valid: "validateConfig g = None"
    using Generate_success_script [OF assms(1)] by simp
  obtain src where src: "script_text h g = Inr src" using script_text_total by blast
  obtain tr1 e1 where w: "writeToFile h g src [] = (tr1, e1)" by (cases "writeToFile h g src []")
  obtain tr2 e2 where r: "generateRequirements h g tr1 = (tr2, e2)"
    by (cases "generateRequirements h g tr1")
  from assms(1) valid src w r have "tr' = tr2"
    by (auto simp add: Generate_valid split: option.splits)
  moreover from r assms(2) have
    "tr2 = tr1 @ [WriteFile (manifest_path h g) (concat (map (\<lambda>l. l @ ''\<newline>'') (manifest_lines g))) 420]"
    by (simp add: generateRequirements_lines perform_def)
  ultimately show ?thesis by simp
qed


lemma quiet_success:
  assumes "validateConfig g = None"
  shows "Generate quiet_host g [] = (fst (Generate quiet_host g []), None)"
proof -
  have "snd (Generate quiet_host g []) = None"
    by (rule Generate_quiet [OF assms]) (simp add: quiet_host_def)
  then show ?thesis by (simp add: prod_eq_iff)
qed

section \<open>Repeated generation\<close>

text \<open>
  Claim C1, as stated, fails: the command-line script carries the time of generation
  in its header, so two runs on the same configuration at different seconds write
  different text. Here the default configuration is generated on a host and on the
  same host one second later.
\<close>

theorem Generate_repeat_counterexample:
  "Generate quiet_host GetDefaultConfig [] =
     ([WriteFile ''calculator.py'' (projr (script_text quiet_host GetDefaultConfig)) 493], None)
   \<and> Generate later_host GetDefaultConfig [] =
     ([WriteFile ''calculator.py'' (projr (script_text later_host GetDefaultConfig)) 493], None)
   \<and> projr (script_text quiet_host GetDefaultConfig) \<noteq> projr (script_text later_host GetDefaultConfig)"
proof -
  obtain s1 where s1: "script_text quiet_host GetDefaultConfig = Inr s1" using script_text_total by blast
  obtain s2 where s2: "script_text later_host GetDefaultConfig = Inr s2" using script_text_total by blast
  have "Generate quiet_host GetDefaultConfig [] = ([WriteFile ''calculator.py'' s1 493], None)"
    by (rule Generate_default_trace [OF s1]) (simp_all add: quiet_host_def)
  moreover have "Generate later_host GetDefaultConfig [] = ([WriteFile ''calculator.py'' s2 493], None)"
    by (rule Generate_default_trace [OF s2]) (simp_all add: quiet_host_def later_host_def)
  moreover have "Style (UI GetDefaultConfig) \<noteq> ''gui''" by (simp add: GetDefaultConfig_def)
  then have "s1 \<noteq> s2"
    using script_text_cli_clock [of GetDefaultConfig quiet_host later_host] s1 s2
    by (simp add: quiet_host_def later_host_def)
  ultimately show ?thesis using s1 s2 by simp
qed

text \<open>
  Claim C1, amended. Take two runs of \<open>Generate\<close> on the same configuration, on any two
  hosts, each started with an empty trace, and the text each writes as the script (the
  write with mode 0755). For the desktop style the two texts are equal. For every other
  style they are equal exactly when the two clocks read the same time.
\<close>

theorem Generate_text_clock:
  assumes "Generate h1 g [] = (tr1, e1)" and "Generate h2 g [] = (tr2, e2)"
    and "WriteFile p1 t1 493 \<in> set tr1" and "WriteFile p2 t2 493 \<in> set tr2"
  shows "(Style (UI g) = ''gui'' \<longrightarrow> t1 = t2) \<and>
         (Style (UI g) \<noteq> ''gui'' \<longrightarrow> (t1 = t2 \<longleftrightarrow> Now h1 = Now h2))"
proof -
  have s1: "script_text h1 g = Inr t1" using Generate_script_write [OF assms(1,3)] by simp
  have s2: "script_text h2 g = Inr t2" using Generate_script_write [OF assms(2,4)] by simp
  show ?thesis
  proof (cases "Style (UI g) = ''gui''")
    case True
    from script_text_gui_clock [OF True, of h1 h2] s1 s2 True show ?thesis by simp
  next
    case False
    from script_text_cli_clock [OF False, of h1 h2] s1 s2 False show ?thesis by simp
  qed
qed

theorem Generate_text_clock_witness:
  "projr (script_text quiet_host gui_config) = projr (script_text later_host gui_config)
   \<and> Now quiet_host \<noteq> Now later_host"
proof -
  obtain s1 where s1: "script_text quiet_host gui_config = Inr s1" using script_text_total by blast
  obtain s2 where s2: "script_text later_host gui_config = Inr s2" using script_text_total by blast
  have g1: "Generate quiet_host gui_config [] =
      ([WriteFile ''calculator.py'' s1 493,
        WriteFile ''./requirements.txt'' ''# tkinter (included with Python)\<newline>'' 420], None)"
    by (rule Generate_gui_trace [OF s1]) (simp_all add: quiet_host_def)
  have g2: "Generate later_host gui_config [] =
      ([WriteFile ''calculator.py'' s2 493,
        WriteFile ''./requirements.txt'' ''# tkinter (included with Python)\<newline>'' 420], None)"
    by (rule Generate_gui_trace [OF s2]) (simp_all add: quiet_host_def later_host_def)
  have gui: "Style (UI gui_config) = ''gui''" by (simp add: gui_config_def)
  have "s1 = s2"
    using Generate_text_clock [OF g1 g2, of "''calculator.py''" s1 "''calculator.py''" s2] gui by simp
  then show ?thesis using s1 s2 by (simp add: quiet_host_def later_host_def)
qed

section \<open>The requirements manifest\<close>

text \<open>
  Claim C2, as stated, fails: for the default configuration with the desktop style no
  third-party library flag is on, and \<open>generateRequirements\<close> writes a manifest that
  holds the comment about tkinter.
\<close>

theorem manifest_without_library_counterexample:
  "\<not> hasExternalLibraries gui_config
   \<and> generateRequirements quiet_host gui_config [] =
     ([WriteFile ''./requirements.txt'' ''# tkinter (included with Python)\<newline>'' 420], None)"
  by (simp add: hasExternalLibraries_def generateRequirements_def perform_def gui_config_def
      GetDefaultConfig_def quiet_host_def)

text \<open>
  Claim C2, amended. \<open>generateRequirements\<close> writes the manifest exactly when a
  third-party library flag or the plotting feature is on or the style is
  \<^verbatim>\<open>gui\<close>, and writes nothing otherwise. The manifest holds the lines of
  \<open>manifest_lines\<close>: the version pin of every library whose flag is on (for plotly also
  when only the plotting feature is on), then the comment about tkinter when the
  style is \<^verbatim>\<open>gui\<close>.
\<close>

theorem generateRequirements_manifest:
  "generateRequirements h g tr =
     (if manifest_lines g = [] then (tr, None)
      else perform h (WriteFile (manifest_path h g)
             (concat (map (\<lambda>l. l @ ''\<newline>'') (manifest_lines g))) 420) tr)
   \<and> (manifest_lines g \<noteq> [] \<longleftrightarrow>
        hasExternalLibraries g \<or> Plotting (Features g) \<or> Style (UI g) = ''gui'')"
  by (rule conjI, rule generateRequirements_lines)
     (auto simp add: manifest_lines_eq hasExternalLibraries_def)

theorem generateRequirements_manifest_witness:
  "generateRequirements quiet_host GetScientificConfig [] =
     ([WriteFile ''./requirements.txt''
         ''numpy>=1.21.0\<newline>scipy>=1.7.0\<newline>sympy>=1.9.0\<newline>'' 420], None)
   \<and> generateRequirements quiet_host GetDefaultConfig [] = ([], None)"
proof -
  have "manifest_lines GetScientificConfig = [''numpy>=1.21.0'', ''scipy>=1.7.0'', ''sympy>=1.9.0'']"
    by (simp add: manifest_lines_eq GetScientificConfig_def GetDefaultConfig_def)
  moreover have "manifest_lines GetDefaultConfig = []"
    by (simp add: manifest_lines_eq GetDefaultConfig_def)
  moreover have "manifest_path quiet_host GetScientificConfig = ''./requirements.txt''"
    by (simp add: manifest_path_def quiet_host_def)
  ultimately show ?thesis
    using generateRequirements_manifest [of quiet_host GetScientificConfig "[]"]
      generateRequirements_manifest [of quiet_host GetDefaultConfig "[]"]
    by (simp add: perform_def quiet_host_def)
qed

section \<open>The scientific type on the command line\<close>

text \<open>
  Claim C3. With \<^verbatim>\<open>--type scientific\<close> and every other setting at its default,
  \<^verbatim>\<open>runGenerate\<close> takes the scientific preset and then replaces it by the
  configuration built from the settings, which starts from the basic defaults. The
  configuration it generates from has the scientific type and description but no
  scientific library or feature: the script imports sys, os and math only, and its
  functions are the basic arithmetic ones.
\<close>

theorem runGenerate_scientific_type:
  "runGenerate_config scientific_flags =
     Inr (GetDefaultConfig\<lparr>Type := ScientificCalculator,
            Description := ''A scientific calculator with advanced mathematical functions''\<rparr>)
   \<and> generateImports (projr (runGenerate_config scientific_flags)) =
       [''import sys'', ''import os'', ''import math'']
   \<and> generateFunctions (projr (runGenerate_config scientific_flags)) = generateBasicArithmetic"
proof -
  have "runGenerate_config scientific_flags =
     Inr (GetDefaultConfig\<lparr>Type := ScientificCalculator,
            Description := ''A scientific calculator with advanced mathematical functions''\<rparr>)"
    by (simp add: runGenerate_config_def scientific_flags_def default_flags_def buildConfigFromFlags_def
        applyLibrariesFromFlags_def applyFeaturesFromFlags_def GetDefaultConfig_def)
  then show ?thesis
    by (simp add: generateImports_def generateFunctions_def GetDefaultConfig_def)
qed

text \<open>The preset itself, as the wizard applies it, has what the claim lists.\<close>

lemma scientific_preset:
  "generateImports GetScientificConfig =
     [''import sys'', ''import os'', ''import math'', ''import json'',
      ''from datetime import datetime'', ''import numpy as np'', ''import scipy as sp'',
      ''from scipy import stats, optimize, integrate'', ''import sympy as sym'',
      ''from sympy import symbols, solve, diff, integrate as sym_integrate'', ''import cmath'']"
  "generateFunctions GetScientificConfig =
     generateBasicArithmetic @ generateMemoryFunctions @ generateHistoryFunctions @
     generateTrigonometricFunctions @ generateLogarithmicFunctions @
     generateStatisticalFunctions @ generateLinearAlgebraFunctions"
  by (simp_all add: generateImports_def generateFunctions_def GetScientificConfig_def GetDefaultConfig_def)

text \<open>
  Claim C5. Applying the library selection, the feature selection, or both in the
  order of the command, only turns flags on: every library and feature flag that was
  on stays on and no other field changes. Applying the same selection to the result
  changes nothing more and returns the same error, if any.
\<close>

theorem resolve_additive_idempotent:
  "only_adds_flags c (fst (resolve v c)) \<and>
   only_adds_flags c (fst (applyLibrariesFromFlags v c)) \<and>
   only_adds_flags c (fst (applyFeaturesFromFlags v c)) \<and>
   resolve v (fst (resolve v c)) = resolve v c \<and>
   applyLibrariesFromFlags v (fst (applyLibrariesFromFlags v c)) = applyLibrariesFromFlags v c \<and>
   applyFeaturesFromFlags v (fst (applyFeaturesFromFlags v c)) = applyFeaturesFromFlags v c"
proof -
  have "only_adds_flags c (fst (resolve v c))"
    by (rule resolve_adds [of v c _ "snd (resolve v c)"]) simp
  moreover have "only_adds_flags c (fst (applyLibrariesFromFlags v c))"
    by (rule applyLibrariesFromFlags_adds [of v c _ "snd (applyLibrariesFromFlags v c)"]) simp
  moreover have "only_adds_flags c (fst (applyFeaturesFromFlags v c))"
    by (rule applyFeaturesFromFlags_adds [of v c _ "snd (applyFeaturesFromFlags v c)"]) simp
  moreover have "resolve v (fst (resolve v c)) = resolve v c"
    using resolve_absorbed [of v c "fst (resolve v c)" "snd (resolve v c)" "fst (resolve v c)"]
    by (simp add: only_adds_refl)
  moreover have "applyLibrariesFromFlags v (fst (applyLibrariesFromFlags v c)) = applyLibrariesFromFlags v c"
    using applyLibrariesFromFlags_absorbed [of v c "fst (applyLibrariesFromFlags v c)"
        "snd (applyLibrariesFromFlags v c)" "fst (applyLibrariesFromFlags v c)"]
    by (simp add: only_adds_refl)
  moreover have "applyFeaturesFromFlags v (fst (applyFeaturesFromFlags v c)) = applyFeaturesFromFlags v c"
    using applyFeaturesFromFlags_absorbed [of v c "fst (applyFeaturesFromFlags v c)"
        "snd (applyFeaturesFromFlags v c)" "fst (applyFeaturesFromFlags v c)"]
    by (simp add: only_adds_refl)
  ultimately show ?thesis by blast
qed

theorem resolve_additive_idempotent_witness:
  "resolve selection_flags GetDefaultConfig =
     (GetDefaultConfig\<lparr>Libraries := (Libraries GetDefaultConfig)\<lparr>UseNumpy := True, UsePandas := True, UsePlotly := True\<rparr>,
        Features := (Features GetDefaultConfig)\<lparr>Statistical := True, Plotting := True\<rparr>\<rparr>, None)
   \<and> only_adds_flags GetDefaultConfig (fst (resolve selection_flags GetDefaultConfig))
   \<and> resolve selection_flags (fst (resolve selection_flags GetDefaultConfig)) =
       resolve selection_flags GetDefaultConfig"
proof -
  have "resolve selection_flags GetDefaultConfig =
     (GetDefaultConfig\<lparr>Libraries := (Libraries GetDefaultConfig)\<lparr>UseNumpy := True, UsePandas := True, UsePlotly := True\<rparr>,
        Features := (Features GetDefaultConfig)\<lparr>Statistical := True, Plotting := True\<rparr>\<rparr>, None)"
    by code_simp
  then show ?thesis
    using resolve_additive_idempotent [of GetDefaultConfig selection_flags] by blast
qed

section \<open>Entailment\<close>

text \<open>
  Claim C4. For every row of the entailment table: when the feature's name is among
  the selected names and \<open>applyFeaturesFromFlags\<close> returns without an error, the
  feature's flag and every library flag of the row are on in the resulting
  configuration.
\<close>

theorem entailment_correct:
  assumes "(name, feat, libs) \<in> set entailment_table"
    and "name \<in> set (selected_names (flag_features v))"
    and "applyFeaturesFromFlags v c = (c', None)"
  shows "feat (Features c') \<and> (\<forall>lib \<in> set libs. lib (Libraries c'))"
proof -
  have "flag_features v \<noteq> ''''"
    using assms(1,2) by (auto simp add: selected_names_def entailment_table_def strings_TrimSpace_def strings_ToLower_def)
  with assms(3) have "applyFeatures_range (strings_Split (flag_features v) CHR '','') c = (c', None)"
    by (simp add: applyFeaturesFromFlags_def)
  with assms(2) obtain c0 c1 where
    step: "feature_case name c0 = Some c1" and le: "only_adds_flags c1 c'"
    unfolding selected_names_def using applyFeatures_range_member by blast
  have on: "feat (Features c1)" "\<forall>lib \<in> set libs. lib (Libraries c1)"
    using entailment_table_case [OF assms(1) step] by blast+
  have mem: "feat \<in> set feature_flags" "\<forall>lib \<in> set libs. lib \<in> set library_flags"
    using entailment_table_flags [OF assms(1)] by blast+
  have "feat (Features c')"
    using le mem(1) on(1) by (rule only_adds_feature)
  moreover have "lib (Libraries c')" if "lib \<in> set libs" for lib
    using le mem(2) on(2) that by (blast intro: only_adds_library)
  ultimately show ?thesis by blast
qed

theorem entailment_correct_witness:
  "DataAnalysis (Features (fst (applyFeaturesFromFlags entailment_flags GetDefaultConfig)))
   \<and> UseNumpy (Libraries (fst (applyFeaturesFromFlags entailment_flags GetDefaultConfig)))
   \<and> UsePandas (Libraries (fst (applyFeaturesFromFlags entailment_flags GetDefaultConfig)))"
proof -
  have row: "(''data-analysis'', DataAnalysis, [UseNumpy, UsePandas]) \<in> set entailment_table"
    by (simp add: entailment_table_def)
  have name: "''data-analysis'' \<in> set (selected_names (flag_features entailment_flags))"
    by code_simp
  have "snd (applyFeaturesFromFlags entailment_flags GetDefaultConfig) = None"
    by code_simp
  then have run: "applyFeaturesFromFlags entailment_flags GetDefaultConfig =
      (fst (applyFeaturesFromFlags entailment_flags GetDefaultConfig), None)"
    by (simp add: prod_eq_iff)
  show ?thesis
    using entailment_correct [OF row name run] by simp
qed

section \<open>Validation boundaries\<close>

text \<open>
  Claim C6. When the output path and the project name are not empty, validation
  returns the precision error for every precision below 1 or above 20, and succeeds
  for every precision from 1 to 20. The instance checks the four boundary values 0,
  21, 1 and 20 on the default configuration.
\<close>

theorem validateConfig_precision_bounds:
  fixes g :: CalculatorConfig
  assumes "OutputFile g \<noteq> ''''" and "ProjectName g \<noteq> ''''"
  shows "(Precision (UI g) < 1 \<or> Precision (UI g) > 20 \<longrightarrow>
            validateConfig g = Some (ValidationErr
              \<lparr>Field = ''precision'', Message = ''precision must be between 1 and 20''\<rparr>))
       \<and> (1 \<le> Precision (UI g) \<and> Precision (UI g) \<le> 20 \<longrightarrow> validateConfig g = None)"
  using assms by (auto simp add: validateConfig_def)

theorem validateConfig_precision_bounds_witness:
  "validateConfig (GetDefaultConfig\<lparr>UI := (UI GetDefaultConfig)\<lparr>Precision := 0\<rparr>\<rparr>) =
     Some (ValidationErr \<lparr>Field = ''precision'', Message = ''precision must be between 1 and 20''\<rparr>)
   \<and> validateConfig (GetDefaultConfig\<lparr>UI := (UI GetDefaultConfig)\<lparr>Precision := 21\<rparr>\<rparr>) =
     Some (ValidationErr \<lparr>Field = ''precision'', Message = ''precision must be between 1 and 20''\<rparr>)
   \<and> validateConfig (GetDefaultConfig\<lparr>UI := (UI GetDefaultConfig)\<lparr>Precision := 1\<rparr>\<rparr>) = None
   \<and> validateConfig (GetDefaultConfig\<lparr>UI := (UI GetDefaultConfig)\<lparr>Precision := 20\<rparr>\<rparr>) = None"
  using validateConfig_precision_bounds [of "GetDefaultConfig\<lparr>UI := (UI GetDefaultConfig)\<lparr>Precision := 0\<rparr>\<rparr>"]
        validateConfig_precision_bounds [of "GetDefaultConfig\<lparr>UI := (UI GetDefaultConfig)\<lparr>Precision := 21\<rparr>\<rparr>"]
        validateConfig_precision_bounds [of "GetDefaultConfig\<lparr>UI := (UI GetDefaultConfig)\<lparr>Precision := 1\<rparr>\<rparr>"]
        validateConfig_precision_bounds [of "GetDefaultConfig\<lparr>UI := (UI GetDefaultConfig)\<lparr>Precision := 20\<rparr>\<rparr>"]
  by (simp add: GetDefaultConfig_def)

section \<open>Validation failures abort the run\<close>

text \<open>
  Claim C7. For every configuration with an empty output path, an empty project name
  or a precision outside 1 to 20, \<open>Generate\<close> returns the validation error, wrapped,
  and the trace it returns is the trace it was given: it creates no directory and
  writes neither the script nor the manifest.
\<close>

theorem Generate_validation_failure:
  fixes g :: CalculatorConfig
  assumes "OutputFile g = '''' \<or> ProjectName g = '''' \<or> Precision (UI g) < 1 \<or> Precision (UI g) > 20"
  shows "\<exists>err. validateConfig g = Some err \<and>
           Generate h g tr = (tr, Some (Wrapf ''configuration validation failed: %w'' err))"
  using assms by (auto simp add: validateConfig_def Generate_def)

theorem Generate_validation_failure_witness:
  "Generate quiet_host (GetDefaultConfig\<lparr>OutputFile := ''''\<rparr>) [] =
     ([], Some (Wrapf ''configuration validation failed: %w''
        (ValidationErr \<lparr>Field = ''output_file'', Message = ''output file cannot be empty''\<rparr>)))"
  using Generate_validation_failure [of "GetDefaultConfig\<lparr>OutputFile := ''''\<rparr>" quiet_host "[]"]
  by (simp add: validateConfig_def)

section \<open>Plotly by flag or by feature\<close>

text \<open>
  Claim C8. For every configuration with the plotly library flag or the plotting
  feature on, a run of \<open>Generate\<close> that returns no error writes a script that holds
  the two plotly import lines and a manifest that holds the plotly pin. The instance
  takes the two configurations of the claim: the flag without the feature, and the
  feature without the flag.
\<close>

theorem plotly_flag_or_feature:
  assumes "UsePlotly (Libraries g) \<or> Plotting (Features g)" and "Generate h g [] = (tr', None)"
  shows "\<exists>script manifest.
           WriteFile (OutputFile g) script 493 \<in> set tr'
         \<and> sublist ''import plotly.graph_objects as go\<newline>'' script
         \<and> sublist ''import plotly.express as px\<newline>'' script
         \<and> WriteFile (manifest_path h g) manifest 420 \<in> set tr'
         \<and> sublist ''plotly>=5.0.0\<newline>'' manifest"
proof -
  obtain src where src: "script_text h g = Inr src" and
      written: "WriteFile (OutputFile g) src 493 \<in> set tr'"
    using Generate_success_script [OF assms(2)] by blast
  have i1: "sublist (''import plotly.graph_objects as go'' @ ''\<newline>'') src"
    by (rule script_text_import [OF src])
       (use assms(1) in \<open>auto simp add: generateImports_def generateGUIImports_def\<close>)
  have i2: "sublist (''import plotly.express as px'' @ ''\<newline>'') src"
    by (rule script_text_import [OF src])
       (use assms(1) in \<open>auto simp add: generateImports_def generateGUIImports_def\<close>)
  have line: "''plotly>=5.0.0'' \<in> set (manifest_lines g)"
    using assms(1) by (auto simp add: manifest_lines_eq)
  then have "manifest_lines g \<noteq> []" by auto
  then have m: "WriteFile (manifest_path h g)
      (concat (map (\<lambda>l. l @ ''\<newline>'') (manifest_lines g))) 420 \<in> set tr'"
    by (rule Generate_success_manifest [OF assms(2)])
  have "sublist (''plotly>=5.0.0'' @ ''\<newline>'') (concat (map (\<lambda>l. l @ ''\<newline>'') (manifest_lines g)))"
    using line by (rule sublist_in_lines_end)
  with written i1 i2 m show ?thesis by auto
qed

theorem plotly_flag_or_feature_witness:
  "UsePlotly (Libraries plotly_library_config) \<and> \<not> Plotting (Features plotly_library_config)
   \<and> Plotting (Features plotting_feature_config) \<and> \<not> UsePlotly (Libraries plotting_feature_config)
   \<and> (\<exists>script manifest.
         WriteFile ''calculator.py'' script 493 \<in> set (fst (Generate quiet_host plotly_library_config []))
       \<and> sublist ''import plotly.graph_objects as go\<newline>'' script
       \<and> sublist ''import plotly.express as px\<newline>'' script
       \<and> WriteFile ''./requirements.txt'' manifest 420 \<in> set (fst (Generate quiet_host plotly_library_config []))
       \<and> sublist ''plotly>=5.0.0\<newline>'' manifest)
   \<and> (\<exists>script manifest.
         WriteFile ''calculator.py'' script 493 \<in> set (fst (Generate quiet_host plotting_feature_config []))
       \<and> sublist ''import plotly.graph_objects as go\<newline>'' script
       \<and> sublist ''import plotly.express as px\<newline>'' script
       \<and> WriteFile ''./requirements.txt'' manifest 420 \<in> set (fst (Generate quiet_host plotting_feature_config []))
       \<and> sublist ''plotly>=5.0.0\<newline>'' manifest)"
proof -
  have valid: "validateConfig plotly_library_config = None" "validateConfig plotting_feature_config = None"
    by (simp_all add: validateConfig_def plotly_library_config_def plotting_feature_config_def GetDefaultConfig_def)
  have flags: "UsePlotly (Libraries plotly_library_config)" "\<not> Plotting (Features plotly_library_config)"
    "Plotting (Features plotting_feature_config)" "\<not> UsePlotly (Libraries plotting_feature_config)"
    by (simp_all add: plotly_library_config_def plotting_feature_config_def GetDefaultConfig_def)
  have paths: "OutputFile plotly_library_config = ''calculator.py''"
    "OutputFile plotting_feature_config = ''calculator.py''"
    "manifest_path quiet_host plotly_library_config = ''./requirements.txt''"
    "manifest_path quiet_host plotting_feature_config = ''./requirements.txt''"
    by (simp_all add: manifest_path_def quiet_host_def plotly_library_config_def
        plotting_feature_config_def GetDefaultConfig_def)
  have a: "UsePlotly (Libraries plotly_library_config) \<or> Plotting (Features plotly_library_config)"
    using flags(1) by simp
  have b: "UsePlotly (Libraries plotting_feature_config) \<or> Plotting (Features plotting_feature_config)"
    using flags(3) by simp
  show ?thesis
    using plotly_flag_or_feature [OF a quiet_success [OF valid(1)]]
      plotly_flag_or_feature [OF b quiet_success [OF valid(2)]] flags
    by (simp only: paths) blast
qed

section \<open>Memory in the command-line program\<close>








section \<open>Fragments that need numpy\<close>










end
